theory Spec2Isabelle
  imports Main "HOL-Library.AList"
begin

section \<open>The cluster connection layer of gocb (cluster.go)\<close>

text \<open>
  A shallow embedding of \<^verbatim>\<open>cluster.go\<close>: the \<^verbatim>\<open>Cluster\<close> struct, its construction
  (\<^verbatim>\<open>clusterFromOptions\<close>, \<^verbatim>\<open>parseExtraConnStrOptions\<close>, \<^verbatim>\<open>Connect\<close>), bucket
  acquisition (\<^verbatim>\<open>Bucket\<close>, \<^verbatim>\<open>getClient\<close>), the choice of a client for cluster-level
  requests (\<^verbatim>\<open>randomClient\<close>, \<^verbatim>\<open>clusterOrRandomClient\<close>, the provider getters),
  \<^verbatim>\<open>WaitUntilReady\<close> and \<^verbatim>\<open>Close\<close>.

  Go pointers to clients are handles into an explicit store, errors are values, and
  everything the code does to its collaborators (creating, connecting and closing a
  client, logging a warning, counting tracer references) is written to a trace.
\<close>

subsection \<open>Errors\<close>

text \<open>
  One constructor for each error that \<^verbatim>\<open>cluster.go\<close> makes itself, and one for the errors
  that come from collaborators (the connection-string parser, a client, a provider).
  \<^item> \<open>ErrNotConnected\<close>: \<^verbatim>\<open>errors.New("not connected to cluster")\<close>
  \<^item> \<open>ErrClusterNotConnected\<close>: \<^verbatim>\<open>errors.New("cluster is not connected")\<close>
  \<^item> \<open>ErrNoClusterLevelQueries\<close>: \<^verbatim>\<open>errors.New("the cluster does not support cluster-level queries ...")\<close>
  \<^item> \<open>ErrHttpScheme\<close>: \<^verbatim>\<open>errors.New("http scheme is not supported, use couchbase or couchbases instead")\<close>
  \<^item> \<open>ErrOptionNotNumber name\<close>: \<^verbatim>\<open>fmt.Errorf("<name> option must be a number")\<close>
  \<^item> \<open>ErrTimeout\<close>: the timeout error with which a provider's \<^verbatim>\<open>WaitUntilReady\<close> gives up
    at its deadline
\<close>

datatype error =
    ErrNotConnected
  | ErrClusterNotConnected
  | ErrNoClusterLevelQueries
  | ErrHttpScheme
  | ErrOptionNotNumber string
  | ErrTimeout
  | ErrExternal string

subsection \<open>Durations\<close>

text \<open>
  \<^verbatim>\<open>time.Duration\<close> is an \<^verbatim>\<open>int64\<close> count of nanoseconds. It is an \<open>int\<close> here, and
  the one multiplication of the code wraps around as \<^verbatim>\<open>int64\<close> does.
\<close>

type_synonym Duration = int

definition wrap64 :: "int \<Rightarrow> int" where
  "wrap64 x = (x + 2 ^ 63) mod 2 ^ 64 - 2 ^ 63"

definition Millisecond :: Duration where
  "Millisecond = 1000000"

definition Second :: Duration where
  "Second = 1000 * Millisecond"

text \<open>\<^verbatim>\<open>time.Duration(val) * time.Millisecond\<close> on \<^verbatim>\<open>int64\<close>.\<close>

definition mulDuration :: "int \<Rightarrow> Duration \<Rightarrow> Duration" where
  "mulDuration val d = wrap64 (val * d)"

subsection \<open>Clients\<close>

type_synonym handle = nat

type_synonym Time = int

type_synonym ClusterState = nat

text \<open>\<^verbatim>\<open>ClusterStateOnline\<close> is declared outside \<^verbatim>\<open>cluster.go\<close> (the first state after 0).\<close>

definition ClusterStateOnline :: ClusterState where
  "ClusterStateOnline = 1"

datatype capability =
  CapDiagnostics | CapQuery | CapAnalytics | CapSearch | CapHTTP | CapWaitUntilReady

text \<open>A provider is bound to the client that handed it out.\<close>

datatype provider = Provider handle capability

text \<open>
  \<^verbatim>\<open>client\<close> is an interface whose implementation is not part of \<^verbatim>\<open>cluster.go\<close>. A client
  is the record of what its methods answer: \<open>bootstrapErr\<close> is the field behind
  \<^verbatim>\<open>setBootstrapError\<close> and \<^verbatim>\<open>getBootstrapError\<close>; the other fields are the results of
  \<^verbatim>\<open>buildConfig()\<close>, \<^verbatim>\<open>connect()\<close>, \<^verbatim>\<open>connected()\<close> (a pair, as in Go), \<^verbatim>\<open>close()\<close>,
  \<^verbatim>\<open>supportsGCCCP()\<close> and of the provider getters (\<open>None\<close>: the provider is handed out).
  \<open>readyAt st\<close> is the time at which the client's transport reaches the cluster state
  \<open>st\<close> (\<open>None\<close>: it never does); \<^verbatim>\<open>cluster.go\<close> cannot read it, the provider's
  \<^verbatim>\<open>WaitUntilReady\<close> below waits for it.
\<close>

record client =
  bootstrapErr :: "error option"
  buildConfigResult :: "error option"
  connectResult :: "error option"
  connectedResult :: "bool \<times> error option"
  closeResult :: "error option"
  supportsGCCCPResult :: bool
  providerErr :: "capability \<Rightarrow> error option"
  readyAt :: "ClusterState \<Rightarrow> Time option"

subsection \<open>The state block and the cluster\<close>

datatype tracer = UserTracer nat | ThresholdLoggingTracer

datatype authenticator = PasswordAuthenticator string string | UserAuthenticator nat

datatype transcoder = JSONTranscoder | UserTranscoder nat

datatype retryStrategy = BestEffortRetryStrategy | UserRetryStrategy nat

text \<open>
  \<^verbatim>\<open>stateBlock\<close> embeds \<^verbatim>\<open>clientStateBlock\<close>, whose one field seen in \<^verbatim>\<open>cluster.go\<close> is
  \<^verbatim>\<open>BucketName\<close>; the other fields are those of the literal in \<^verbatim>\<open>clusterFromOptions\<close>.
  Circuit breaker, security and internal configuration are opaque and passed through:
  \<open>nat\<close> names.
\<close>

record clientStateBlock =
  BucketName :: string

record stateBlock = clientStateBlock +
  ConnectTimeout :: Duration
  QueryTimeout :: Duration
  AnalyticsTimeout :: Duration
  SearchTimeout :: Duration
  ViewTimeout :: Duration
  KvTimeout :: Duration
  KvDurableTimeout :: Duration
  DuraPollTimeout :: Duration
  Transcoder :: transcoder
  UseMutationTokens :: bool
  ManagementTimeout :: Duration
  RetryStrategyWrapper :: retryStrategy
  OrphanLoggerEnabled :: bool
  OrphanLoggerInterval :: Duration
  OrphanLoggerSampleSize :: nat
  UseServerDurations :: bool
  Tracer :: "tracer option"
  CircuitBreakerConfig :: nat
  SecurityConfig :: nat
  InternalConfig :: nat

text \<open>
  \<^verbatim>\<open>gocbconnstr.ConnSpec\<close>, the result of the connection-string parser: the scheme and
  the options (a Go \<^verbatim>\<open>map[string][]string\<close>) are the fields \<^verbatim>\<open>cluster.go\<close> reads.
\<close>

record ConnSpec =
  Scheme :: string
  Options :: "string \<rightharpoonup> string list"

text \<open>Where a new client comes from: \<^verbatim>\<open>Connect\<close> (the cluster-level one) or \<^verbatim>\<open>Bucket\<close>.\<close>

datatype origin = ClusterLevel | ForBucket stateBlock

datatype event =
    EvNewClient handle origin
  | EvBuildConfig handle
  | EvConnect handle
  | EvClose handle
  | EvLogWarn error
  | EvTracerAddRef tracer
  | EvTracerDecRef tracer

text \<open>
  The \<^verbatim>\<open>Cluster\<close> struct. \<open>connections\<close> is the Go map \<^verbatim>\<open>map[string]client\<close> as an
  association list: its order is the order in which a \<^verbatim>\<open>range\<close> over the map visits the
  entries, which Go leaves open, so every theorem below holds for every order.
  The locks, the query cache and \<^verbatim>\<open>supportsEnhancedStatements\<close> play no part here.
\<close>

record Cluster =
  cSpec :: ConnSpec
  auth :: authenticator
  connections :: "(string \<times> handle) list"
  clusterClient :: "handle option"
  sb :: stateBlock
  supportsGCCCP :: bool

text \<open>
  The cluster together with the store of clients, the next free handle and the trace.
  The store is total: \<open>heap w h\<close> for a handle not yet handed out is the client that
  \<^verbatim>\<open>newClient\<close> will make there, that is, how the outside world will answer it.
\<close>

record world = Cluster +
  heap :: "handle \<Rightarrow> client"
  nextHandle :: handle
  trace :: "event list"

subsection \<open>Client methods on the store\<close>

definition emit :: "event \<Rightarrow> 'a world_scheme \<Rightarrow> 'a world_scheme" where
  "emit e w = w\<lparr>trace := trace w @ [e]\<rparr>"

definition logWarnf :: "error \<Rightarrow> 'a world_scheme \<Rightarrow> 'a world_scheme" where
  "logWarnf e w = emit (EvLogWarn e) w"

definition newClient :: "origin \<Rightarrow> world \<Rightarrow> handle \<times> world" where
  "newClient org w =
     (let h = nextHandle w
      in (h, emit (EvNewClient h org)
               (w\<lparr>heap := (heap w)(h := (heap w h)\<lparr>bootstrapErr := None\<rparr>),
                  nextHandle := Suc h\<rparr>)))"

definition client_buildConfig :: "handle \<Rightarrow> world \<Rightarrow> error option \<times> world" where
  "client_buildConfig h w = (buildConfigResult (heap w h), emit (EvBuildConfig h) w)"

definition client_connect :: "handle \<Rightarrow> world \<Rightarrow> error option \<times> world" where
  "client_connect h w = (connectResult (heap w h), emit (EvConnect h) w)"

definition client_close :: "handle \<Rightarrow> world \<Rightarrow> error option \<times> world" where
  "client_close h w = (closeResult (heap w h), emit (EvClose h) w)"

definition setBootstrapError :: "handle \<Rightarrow> error \<Rightarrow> world \<Rightarrow> world" where
  "setBootstrapError h e w = w\<lparr>heap := (heap w)(h := (heap w h)\<lparr>bootstrapErr := Some e\<rparr>)\<rparr>"

definition getBootstrapError :: "world \<Rightarrow> handle \<Rightarrow> error option" where
  "getBootstrapError w h = bootstrapErr (heap w h)"

definition client_connected :: "world \<Rightarrow> handle \<Rightarrow> bool \<times> error option" where
  "client_connected w h = connectedResult (heap w h)"

definition client_supportsGCCCP :: "world \<Rightarrow> handle \<Rightarrow> bool" where
  "client_supportsGCCCP w h = supportsGCCCPResult (heap w h)"

definition client_getProvider :: "world \<Rightarrow> handle \<Rightarrow> capability \<Rightarrow> error + provider" where
  "client_getProvider w h cap =
     (case providerErr (heap w h) cap of
        Some e \<Rightarrow> Inl e
      | None \<Rightarrow> Inr (Provider h cap))"

subsection \<open>randomClient and clusterOrRandomClient\<close>

text \<open>
  The loop of \<^verbatim>\<open>randomClient\<close> over the entries still to visit, with its two variables
  \<^verbatim>\<open>randomClient\<close> and \<^verbatim>\<open>firstError\<close>; \<^verbatim>\<open>break\<close> leaves the loop with the rest unvisited.
\<close>

fun randomClient_loop ::
  "world \<Rightarrow> (string \<times> handle) list \<Rightarrow> handle option \<Rightarrow> error option
     \<Rightarrow> handle option \<times> error option" where
  "randomClient_loop w [] randomCl firstError = (randomCl, firstError)"
| "randomClient_loop w ((k, c) # rest) randomCl firstError =
     (case getBootstrapError w c of
        Some err \<Rightarrow>
          (if firstError = None
           then randomClient_loop w rest randomCl (getBootstrapError w c)
           else randomClient_loop w rest randomCl firstError)
      | None \<Rightarrow>
          (case client_connected w c of
             (connected, Some err) \<Rightarrow>
               (if firstError = None
                then randomClient_loop w rest randomCl (Some err)
                else randomClient_loop w rest randomCl firstError)
           | (connected, None) \<Rightarrow>
               (if connected then (Some c, firstError)
                else randomClient_loop w rest randomCl firstError)))"

definition randomClient :: "world \<Rightarrow> error + handle" where
  "randomClient w =
     (if length (connections w) = 0 then Inl ErrNotConnected
      else
        (case randomClient_loop w (connections w) None None of
           (None, None) \<Rightarrow> Inl ErrNotConnected
         | (None, Some firstError) \<Rightarrow> Inl firstError
         | (Some randomCl, _) \<Rightarrow> Inr randomCl))"

definition clusterOrRandomClient :: "world \<Rightarrow> error + handle" where
  "clusterOrRandomClient w =
     (case clusterClient w of
        None \<Rightarrow>
          (case randomClient w of
             Inl err \<Rightarrow> Inl err
           | Inr cli \<Rightarrow> Inr cli)
      | Some cli \<Rightarrow>
          (if \<not> client_supportsGCCCP w cli then Inl ErrNoClusterLevelQueries
           else Inr cli))"

definition getProviderFor :: "capability \<Rightarrow> world \<Rightarrow> error + provider" where
  "getProviderFor cap w =
     (case clusterOrRandomClient w of
        Inl err \<Rightarrow> Inl err
      | Inr cli \<Rightarrow>
          (case client_getProvider w cli cap of
             Inl err \<Rightarrow> Inl err
           | Inr p \<Rightarrow> Inr p))"

text \<open>The five getters of \<^verbatim>\<open>cluster.go\<close> differ only in the client method they call.\<close>

definition getDiagnosticsProvider :: "world \<Rightarrow> error + provider" where
  "getDiagnosticsProvider w = getProviderFor CapDiagnostics w"

definition getQueryProvider :: "world \<Rightarrow> error + provider" where
  "getQueryProvider w = getProviderFor CapQuery w"

definition getAnalyticsProvider :: "world \<Rightarrow> error + provider" where
  "getAnalyticsProvider w = getProviderFor CapAnalytics w"

definition getSearchProvider :: "world \<Rightarrow> error + provider" where
  "getSearchProvider w = getProviderFor CapSearch w"

definition getHTTPProvider :: "world \<Rightarrow> error + provider" where
  "getHTTPProvider w = getProviderFor CapHTTP w"

subsection \<open>Construction\<close>

record IoConfig =
  DisableMutationTokens :: bool
  DisableServerDurations :: bool

text \<open>
  \<^verbatim>\<open>TimeoutsConfig\<close> and \<^verbatim>\<open>ClusterOptions\<close>; their fields carry a prefix where the state
  block has a field of the same name. A zero duration or \<open>None\<close> is an option left unset.
\<close>

record TimeoutsConfig =
  tc_ConnectTimeout :: Duration
  tc_KVTimeout :: Duration
  tc_KVDurableTimeout :: Duration
  tc_ViewTimeout :: Duration
  tc_QueryTimeout :: Duration
  tc_AnalyticsTimeout :: Duration
  tc_SearchTimeout :: Duration
  tc_ManagementTimeout :: Duration

record OrphanReporterConfig =
  Disabled :: bool
  ReportInterval :: Duration
  SampleSize :: nat

record ClusterOptions =
  opts_Authenticator :: "authenticator option"
  opts_Username :: string
  opts_Password :: string
  opts_TimeoutsConfig :: TimeoutsConfig
  opts_Transcoder :: "transcoder option"
  opts_RetryStrategy :: "retryStrategy option"
  opts_Tracer :: "tracer option"
  opts_OrphanReporterConfig :: OrphanReporterConfig
  opts_CircuitBreakerConfig :: nat
  opts_IoConfig :: IoConfig
  opts_SecurityConfig :: nat
  opts_InternalConfig :: nat

text \<open>
  \<^verbatim>\<open>clusterFromOptions\<close>. The second argument is the outside world: the clients that
  \<^verbatim>\<open>newClient\<close> will hand out. The bucket name of the cluster's own state block is the
  zero value.
\<close>

definition clusterFromOptions :: "ClusterOptions \<Rightarrow> (handle \<Rightarrow> client) \<Rightarrow> world" where
  "clusterFromOptions opts env =
     (let authr = (case opts_Authenticator opts of
                     None \<Rightarrow> PasswordAuthenticator (opts_Username opts) (opts_Password opts)
                   | Some a \<Rightarrow> a);
          tc = opts_TimeoutsConfig opts;
          connectTimeout = (if tc_ConnectTimeout tc > 0 then tc_ConnectTimeout tc
                            else 10000 * Millisecond);
          kvTimeout = (if tc_KVTimeout tc > 0 then tc_KVTimeout tc else 2500 * Millisecond);
          kvDurableTimeout = (if tc_KVDurableTimeout tc > 0 then tc_KVDurableTimeout tc
                              else 10000 * Millisecond);
          viewTimeout = (if tc_ViewTimeout tc > 0 then tc_ViewTimeout tc
                         else 75000 * Millisecond);
          queryTimeout = (if tc_QueryTimeout tc > 0 then tc_QueryTimeout tc
                          else 75000 * Millisecond);
          analyticsTimeout = (if tc_AnalyticsTimeout tc > 0 then tc_AnalyticsTimeout tc
                              else 75000 * Millisecond);
          searchTimeout = (if tc_SearchTimeout tc > 0 then tc_SearchTimeout tc
                           else 75000 * Millisecond);
          managementTimeout = (if tc_ManagementTimeout tc > 0 then tc_ManagementTimeout tc
                               else 75000 * Millisecond);
          transcoder = (case opts_Transcoder opts of None \<Rightarrow> JSONTranscoder | Some t \<Rightarrow> t);
          retry = (case opts_RetryStrategy opts of
                     None \<Rightarrow> BestEffortRetryStrategy
                   | Some r \<Rightarrow> r);
          useMutationTokens = (if DisableMutationTokens (opts_IoConfig opts) then False else True);
          useServerDurations = (if DisableServerDurations (opts_IoConfig opts) then False else True);
          initialTracer = (case opts_Tracer opts of
                             Some t \<Rightarrow> t
                           | None \<Rightarrow> ThresholdLoggingTracer)
      in \<lparr> cSpec = \<lparr> Scheme = [], Options = Map.empty \<rparr>,
           auth = authr,
           connections = [],
           clusterClient = None,
           sb = \<lparr> BucketName = [],
                  ConnectTimeout = connectTimeout,
                  QueryTimeout = queryTimeout,
                  AnalyticsTimeout = analyticsTimeout,
                  SearchTimeout = searchTimeout,
                  ViewTimeout = viewTimeout,
                  KvTimeout = kvTimeout,
                  KvDurableTimeout = kvDurableTimeout,
                  DuraPollTimeout = 100 * Millisecond,
                  Transcoder = transcoder,
                  UseMutationTokens = useMutationTokens,
                  ManagementTimeout = managementTimeout,
                  RetryStrategyWrapper = retry,
                  OrphanLoggerEnabled = (\<not> Disabled (opts_OrphanReporterConfig opts)),
                  OrphanLoggerInterval = ReportInterval (opts_OrphanReporterConfig opts),
                  OrphanLoggerSampleSize = SampleSize (opts_OrphanReporterConfig opts),
                  UseServerDurations = useServerDurations,
                  Tracer = Some initialTracer,
                  CircuitBreakerConfig = opts_CircuitBreakerConfig opts,
                  SecurityConfig = opts_SecurityConfig opts,
                  InternalConfig = opts_InternalConfig opts \<rparr>,
           supportsGCCCP = False,
           heap = env,
           nextHandle = 0,
           trace = [EvTracerAddRef initialTracer] \<rparr>)"

subsection \<open>Connection-string options\<close>

text \<open>
  \<^verbatim>\<open>strconv.ParseInt(s, 10, 64)\<close> of Go's standard library, by its documentation: an
  optional sign, then one or more decimal digits, and a value that fits \<^verbatim>\<open>int64\<close>.
  \<open>None\<close> is a non-nil error (a syntax or a range error): the caller tests nothing else.
\<close>

definition digitVal :: "char \<Rightarrow> nat option" where
  "digitVal c =
     (let n = (of_char c :: nat) in if 48 \<le> n \<and> n \<le> 57 then Some (n - 48) else None)"

fun ParseUint_loop :: "string \<Rightarrow> nat \<Rightarrow> nat option" where
  "ParseUint_loop [] n = Some n"
| "ParseUint_loop (c # cs) n =
     (case digitVal c of
        None \<Rightarrow> None
      | Some d \<Rightarrow> ParseUint_loop cs (n * 10 + d))"

definition ParseUint :: "string \<Rightarrow> nat option" where
  "ParseUint s = (if s = [] then None else ParseUint_loop s 0)"

definition ParseInt :: "string \<Rightarrow> int option" where
  "ParseInt s =
     (if s = [] then None
      else
        (let neg = (hd s = CHR ''-'');
             s1 = (if hd s = CHR ''+'' \<or> hd s = CHR ''-'' then tl s else s)
         in case ParseUint s1 of
              None \<Rightarrow> None
            | Some un \<Rightarrow>
                (if \<not> neg \<and> un \<ge> 2 ^ 63 then None
                 else if neg \<and> un > 2 ^ 63 then None
                 else Some (if neg then - int un else int un))))"

text \<open>The closure \<^verbatim>\<open>fetchOption\<close>: the last value of an option, if it has one.\<close>

definition fetchOption :: "ConnSpec \<Rightarrow> string \<Rightarrow> string option" where
  "fetchOption spec name =
     (let optValue = (case Options spec name of None \<Rightarrow> [] | Some vs \<Rightarrow> vs)
      in if length optValue = 0 then None
         else Some (optValue ! (length optValue - 1)))"

definition parseExtraConnStrOptions :: "ConnSpec \<Rightarrow> world \<Rightarrow> error + world" where
  "parseExtraConnStrOptions spec c =
     (case (case fetchOption spec ''query_timeout'' of
              None \<Rightarrow> Inr c
            | Some valStr \<Rightarrow>
                (case ParseInt valStr of
                   None \<Rightarrow> Inl (ErrOptionNotNumber ''query_timeout'')
                 | Some val \<Rightarrow>
                     Inr (c\<lparr>sb := (sb c)\<lparr>QueryTimeout := mulDuration val Millisecond\<rparr>\<rparr>))) of
        Inl err \<Rightarrow> Inl err
      | Inr c1 \<Rightarrow>
     (case (case fetchOption spec ''analytics_timeout'' of
              None \<Rightarrow> Inr c1
            | Some valStr \<Rightarrow>
                (case ParseInt valStr of
                   None \<Rightarrow> Inl (ErrOptionNotNumber ''analytics_timeout'')
                 | Some val \<Rightarrow>
                     Inr (c1\<lparr>sb := (sb c1)\<lparr>AnalyticsTimeout := mulDuration val Millisecond\<rparr>\<rparr>))) of
        Inl err \<Rightarrow> Inl err
      | Inr c2 \<Rightarrow>
     (case (case fetchOption spec ''search_timeout'' of
              None \<Rightarrow> Inr c2
            | Some valStr \<Rightarrow>
                (case ParseInt valStr of
                   None \<Rightarrow> Inl (ErrOptionNotNumber ''search_timeout'')
                 | Some val \<Rightarrow>
                     Inr (c2\<lparr>sb := (sb c2)\<lparr>SearchTimeout := mulDuration val Millisecond\<rparr>\<rparr>))) of
        Inl err \<Rightarrow> Inl err
      | Inr c3 \<Rightarrow>
     (case fetchOption spec ''view_timeout'' of
        None \<Rightarrow> Inr c3
      | Some valStr \<Rightarrow>
          (case ParseInt valStr of
             None \<Rightarrow> Inl (ErrOptionNotNumber ''view_timeout'')
           | Some val \<Rightarrow>
               Inr (c3\<lparr>sb := (sb c3)\<lparr>ViewTimeout := mulDuration val Millisecond\<rparr>\<rparr>))))))"

text \<open>
  \<^verbatim>\<open>Connect\<close>. \<^verbatim>\<open>gocbconnstr.Parse\<close> belongs to another module and is the parameter
  \<open>parse\<close>. When \<^verbatim>\<open>Connect\<close> returns an error it returns no cluster (\<open>Inl\<close>).
\<close>

definition Connect ::
  "(string \<Rightarrow> error + ConnSpec) \<Rightarrow> string \<Rightarrow> ClusterOptions \<Rightarrow> (handle \<Rightarrow> client)
     \<Rightarrow> error + world" where
  "Connect parse connStr opts env =
     (case parse connStr of
        Inl err \<Rightarrow> Inl err
      | Inr connSpec \<Rightarrow>
          (if Scheme connSpec = ''http'' then Inl ErrHttpScheme
           else
             (let cluster = (clusterFromOptions opts env)\<lparr>cSpec := connSpec\<rparr>
              in case parseExtraConnStrOptions connSpec cluster of
                   Inl err \<Rightarrow> Inl err
                 | Inr cluster1 \<Rightarrow>
                     (let (cli, w1) = newClient ClusterLevel cluster1;
                          (err, w2) = client_buildConfig cli w1
                      in case err of
                           Some e \<Rightarrow> Inl e
                         | None \<Rightarrow>
                             (let (err, w3) = client_connect cli w2
                              in case err of
                                   Some e \<Rightarrow> Inl e
                                 | None \<Rightarrow>
                                     Inr (w3\<lparr>clusterClient := Some cli,
                                             supportsGCCCP :=
                                               client_supportsGCCCP w3 cli\<rparr>))))))"

subsection \<open>Bucket acquisition\<close>

text \<open>
  The \<^verbatim>\<open>Bucket\<close> struct: its state block, and the client that \<^verbatim>\<open>cacheClient\<close> stores.
\<close>

record Bucket =
  bsb :: stateBlock
  cachedClient :: "handle option"

text \<open>
  \<^verbatim>\<open>newBucket(&c.sb, bucketName)\<close> is not in \<^verbatim>\<open>cluster.go\<close>: the bucket takes the
  cluster's state block with its own name in the embedded client state block.
\<close>

definition newBucket :: "stateBlock \<Rightarrow> string \<Rightarrow> Bucket" where
  "newBucket s bucketName = \<lparr> bsb = s\<lparr>BucketName := bucketName\<rparr>, cachedClient = None \<rparr>"

definition cacheClient :: "handle \<Rightarrow> Bucket \<Rightarrow> Bucket" where
  "cacheClient cli b = b\<lparr>cachedClient := Some cli\<rparr>"

text \<open>
  The fingerprint: \<^verbatim>\<open>Hash()\<close> of the client state block (\<^verbatim>\<open>getClient\<close>) and \<^verbatim>\<open>hash()\<close> of
  the bucket (\<^verbatim>\<open>Bucket\<close>) are not in \<^verbatim>\<open>cluster.go\<close>. Both are the one parameter \<open>hashf\<close>,
  a function of the bucket's state block; which of its fields it reads is left open.
\<close>

type_synonym fingerprint = "stateBlock \<Rightarrow> string"

definition getClient :: "fingerprint \<Rightarrow> stateBlock \<Rightarrow> world \<Rightarrow> handle option" where
  "getClient hashf s w = map_of (connections w) (hashf s)"

text \<open>Lines 302 to 313 of \<^verbatim>\<open>Bucket\<close>: the cluster-level client is shut down if it is of no use.\<close>

definition retireClusterClient :: "world \<Rightarrow> world" where
  "retireClusterClient w =
     (case clusterClient w of
        None \<Rightarrow> w
      | Some cc \<Rightarrow>
          (if \<not> client_supportsGCCCP w cc
           then
             (let (err, w1) = client_close cc w;
                  w2 = (case err of Some e \<Rightarrow> logWarnf e w1 | None \<Rightarrow> w1)
              in w2\<lparr>clusterClient := None\<rparr>)
           else w))"

text \<open>Lines 325 to 334: a new client is made and bootstrapped, outside the lock.\<close>

definition createClient :: "stateBlock \<Rightarrow> world \<Rightarrow> handle \<times> world" where
  "createClient s w =
     (let (cli, w1) = newClient (ForBucket s) w;
          (err, w2) = client_buildConfig cli w1
      in case err of
           None \<Rightarrow>
             (let (err, w3) = client_connect cli w2
              in case err of
                   Some e \<Rightarrow> (cli, setBootstrapError cli e w3)
                 | None \<Rightarrow> (cli, w3))
         | Some e \<Rightarrow> (cli, setBootstrapError cli e w2))"

text \<open>Lines 336 to 338: \<^verbatim>\<open>c.connections[b.hash()] = cli\<close>.\<close>

definition registerClient :: "string \<Rightarrow> handle \<Rightarrow> world \<Rightarrow> world" where
  "registerClient key cli w = w\<lparr>connections := AList.update key cli (connections w)\<rparr>"

definition Bucket :: "fingerprint \<Rightarrow> string \<Rightarrow> world \<Rightarrow> Bucket \<times> world" where
  "Bucket hashf bucketName w =
     (let b = newBucket (sb w) bucketName;
          w1 = retireClusterClient w
      in case getClient hashf (bsb b) w1 of
           Some cli \<Rightarrow> (cacheClient cli b, w1)
         | None \<Rightarrow>
             (let (cli, w2) = createClient (bsb b) w1;
                  w3 = registerClient (hashf (bsb b)) cli w2
              in (cacheClient cli b, w3)))"

subsection \<open>Bucket under concurrent callers\<close>

text \<open>
  \<^verbatim>\<open>Bucket\<close> takes the lock \<^verbatim>\<open>connectionsLock\<close> three times and releases it in between: for
  the cluster-level client (lines 302 to 313), for the lookup in \<^verbatim>\<open>getClient\<close> (lines 345 to
  352) and for the insertion (lines 336 to 338); the new client is made and bootstrapped
  with the lock released (lines 325 to 334). A call in progress is at one of these four
  steps or has returned; \<open>c_b\<close> and \<open>c_cli\<close> are its local variables \<^verbatim>\<open>b\<close> and \<^verbatim>\<open>cli\<close>.
\<close>

datatype pc = AtRetire | AtLookup | AtCreate | AtInsert | Returned

record call =
  c_pc :: pc
  c_b :: Bucket
  c_cli :: "handle option"

text \<open>The call starts with \<^verbatim>\<open>b := newBucket(&c.sb, bucketName)\<close>, which takes no lock.\<close>

definition startCall :: "stateBlock \<Rightarrow> string \<Rightarrow> call" where
  "startCall s bucketName = \<lparr> c_pc = AtRetire, c_b = newBucket s bucketName, c_cli = None \<rparr>"

text \<open>One step of one call: what it does between taking the lock and releasing it, or
  the bootstrap of the new client.\<close>

definition Bucket_step :: "fingerprint \<Rightarrow> call \<Rightarrow> world \<Rightarrow> call \<times> world" where
  "Bucket_step hashf c w =
     (case c_pc c of
        AtRetire \<Rightarrow> (c\<lparr>c_pc := AtLookup\<rparr>, retireClusterClient w)
      | AtLookup \<Rightarrow>
          (case getClient hashf (bsb (c_b c)) w of
             Some cli \<Rightarrow> (c\<lparr>c_pc := Returned, c_b := cacheClient cli (c_b c)\<rparr>, w)
           | None \<Rightarrow> (c\<lparr>c_pc := AtCreate\<rparr>, w))
      | AtCreate \<Rightarrow>
          (let (cli, w2) = createClient (bsb (c_b c)) w
           in (c\<lparr>c_pc := AtInsert, c_cli := Some cli\<rparr>, w2))
      | AtInsert \<Rightarrow>
          (case c_cli c of
             Some cli \<Rightarrow>
               (c\<lparr>c_pc := Returned, c_b := cacheClient cli (c_b c)\<rparr>,
                registerClient (hashf (bsb (c_b c))) cli w)
           | None \<Rightarrow> (c, w))
      | Returned \<Rightarrow> (c, w))"

text \<open>
  Several calls on one cluster, interleaved by a schedule: the list of the indices of
  the calls that take the next step, in order.
\<close>

fun runSchedule :: "fingerprint \<Rightarrow> nat list \<Rightarrow> call list \<times> world \<Rightarrow> call list \<times> world" where
  "runSchedule hashf [] cw = cw"
| "runSchedule hashf (i # sched) (cs, w) =
     (if i < length cs
      then (let (c', w') = Bucket_step hashf (cs ! i) w
            in runSchedule hashf sched (cs[i := c'], w'))
      else runSchedule hashf sched (cs, w))"

subsection \<open>WaitUntilReady\<close>

record WaitUntilReadyOptions =
  DesiredState :: ClusterState

text \<open>
  Modelled from the spec: the provider's \<^verbatim>\<open>WaitUntilReady(deadline, opts)\<close> belongs to the
  transport and is not in \<^verbatim>\<open>cluster.go\<close>. By the specification it blocks the caller until
  the desired state is reached or the deadline passes, and returns a timeout error in the
  second case. The result is the error and the time at which the call returns; \<open>now\<close> is
  the time of the call.
\<close>

fun provider_WaitUntilReady ::
  "world \<Rightarrow> provider \<Rightarrow> Time \<Rightarrow> Time \<Rightarrow> ClusterState \<Rightarrow> error option \<times> Time" where
  "provider_WaitUntilReady w (Provider h cap) now deadline desiredState =
     (case readyAt (heap w h) desiredState of
        Some t \<Rightarrow>
          (if t \<le> deadline then (None, max now t)
           else (Some ErrTimeout, max now deadline))
      | None \<Rightarrow> (Some ErrTimeout, max now deadline))"

text \<open>
  \<^verbatim>\<open>WaitUntilReady\<close>. \<open>now\<close> is \<^verbatim>\<open>time.Now()\<close>, and the deadline is
  \<^verbatim>\<open>time.Now().Add(timeout)\<close>. The result is the returned error and the time at which the
  call returns: only the provider's wait takes time.
\<close>

definition WaitUntilReady ::
  "Time \<Rightarrow> Duration \<Rightarrow> WaitUntilReadyOptions option \<Rightarrow> world \<Rightarrow> error option \<times> Time" where
  "WaitUntilReady now timeout opts w =
     (let opts1 = (case opts of None \<Rightarrow> \<lparr> DesiredState = 0 \<rparr> | Some x \<Rightarrow> x)
      in case clusterClient w of
           None \<Rightarrow> (Some ErrClusterNotConnected, now)
         | Some cli \<Rightarrow>
             (case client_getProvider w cli CapWaitUntilReady of
                Inl err \<Rightarrow> (Some err, now)
              | Inr prov \<Rightarrow>
                  (let desiredState = (if DesiredState opts1 = 0 then ClusterStateOnline
                                       else DesiredState opts1)
                   in case provider_WaitUntilReady w prov now (now + timeout) desiredState of
                        (Some err, t) \<Rightarrow> (Some err, t)
                      | (None, t) \<Rightarrow> (None, t))))"

subsection \<open>Close\<close>

text \<open>
  The loop of \<^verbatim>\<open>Close\<close> over the entries still to visit. Each entry is closed, a failure
  is logged and stored in \<^verbatim>\<open>overallErr\<close>, and the entry's key is deleted from the map.
\<close>

fun Close_loop :: "(string \<times> handle) list \<Rightarrow> error option \<Rightarrow> world \<Rightarrow> error option \<times> world" where
  "Close_loop [] overallErr w = (overallErr, w)"
| "Close_loop ((key, conn) # rest) overallErr w =
     (let (err, w1) = client_close conn w;
          (overallErr1, w2) = (case err of
                                 Some e \<Rightarrow> (Some e, logWarnf e w1)
                               | None \<Rightarrow> (overallErr, w1));
          w3 = w2\<lparr>connections := AList.delete key (connections w2)\<rparr>
      in Close_loop rest overallErr1 w3)"

definition Close :: "world \<Rightarrow> error option \<times> world" where
  "Close w =
     (let (overallErr1, w1) = Close_loop (connections w) None w;
          (overallErr2, w2) =
             (case clusterClient w1 of
                Some cc \<Rightarrow>
                  (let (err, w') = client_close cc w1
                   in case err of
                        Some e \<Rightarrow> (Some e, logWarnf e w')
                      | None \<Rightarrow> (overallErr1, w'))
              | None \<Rightarrow> (overallErr1, w1));
          w3 = (case Tracer (sb w2) of
                  Some t \<Rightarrow> (emit (EvTracerDecRef t) w2)\<lparr>sb := (sb w2)\<lparr>Tracer := None\<rparr>\<rparr>
                | None \<Rightarrow> w2)
      in (overallErr2, w3))"

section \<open>Notions used in the statements\<close>

subsection \<open>The fallback scan, in the words of the specification\<close>

text \<open>
  A handle is usable when it has no bootstrap error and reports connected without an
  error. The error a handle contributes to the scan is its bootstrap error or, without
  one, the error of its connectivity check.
\<close>

definition usable :: "world \<Rightarrow> handle \<Rightarrow> bool" where
  "usable w h \<longleftrightarrow> bootstrapErr (heap w h) = None \<and> connectedResult (heap w h) = (True, None)"

definition recordedError :: "world \<Rightarrow> handle \<Rightarrow> error option" where
  "recordedError w h =
     (case bootstrapErr (heap w h) of
        Some e \<Rightarrow> Some e
      | None \<Rightarrow> snd (connectedResult (heap w h)))"

text \<open>
  The scan over the handles in the order visited: the first usable handle; without one,
  the first recorded error; without one, "not connected".
\<close>

definition fallbackScan :: "world \<Rightarrow> handle list \<Rightarrow> error + handle" where
  "fallbackScan w hs =
     (case find (usable w) hs of
        Some h \<Rightarrow> Inr h
      | None \<Rightarrow>
          (case List.map_filter (recordedError w) hs of
             [] \<Rightarrow> Inl ErrNotConnected
           | e # _ \<Rightarrow> Inl e))"

subsection \<open>What Close does, to whom, and what it returns\<close>

text \<open>
  The handles \<^verbatim>\<open>Close\<close> has to close, in the order it visits them: the registry's, then
  the cluster-level client's.
\<close>

definition closeTargets :: "world \<Rightarrow> handle list" where
  "closeTargets w =
     map snd (connections w) @ (case clusterClient w of None \<Rightarrow> [] | Some cc \<Rightarrow> [cc])"

text \<open>Closing one handle: the call, and the warning logged when it fails.\<close>

definition closeEvents :: "world \<Rightarrow> handle \<Rightarrow> event list" where
  "closeEvents w h =
     EvClose h # (case closeResult (heap w h) of Some e \<Rightarrow> [EvLogWarn e] | None \<Rightarrow> [])"

text \<open>The errors among a list of results, the first of them and the last of them.\<close>

definition errorsOf :: "error option list \<Rightarrow> error list" where
  "errorsOf rs = List.map_filter (\<lambda>r. r) rs"

definition firstError :: "error option list \<Rightarrow> error option" where
  "firstError rs = (case errorsOf rs of [] \<Rightarrow> None | e # _ \<Rightarrow> Some e)"

definition lastError :: "error option list \<Rightarrow> error option" where
  "lastError rs = (case rev (errorsOf rs) of [] \<Rightarrow> None | e # _ \<Rightarrow> Some e)"

text \<open>How often the trace releases a tracer reference.\<close>

definition decRefCount :: "event list \<Rightarrow> nat" where
  "decRefCount tr = length (filter (\<lambda>e. case e of EvTracerDecRef t \<Rightarrow> True | _ \<Rightarrow> False) tr)"

subsection \<open>Connection strings\<close>

text \<open>
  A decimal digit as Go tests it (\<^verbatim>\<open>'0' <= c && c <= '9'\<close>), and a numeric string: an
  optional sign and one or more digits.
\<close>

definition isDigit :: "char \<Rightarrow> bool" where
  "isDigit c \<longleftrightarrow> 48 \<le> (of_char c :: nat) \<and> (of_char c :: nat) \<le> 57"

definition numeric :: "string \<Rightarrow> bool" where
  "numeric s \<longleftrightarrow>
     (case s of
        [] \<Rightarrow> False
      | c # cs \<Rightarrow>
          if c = CHR ''+'' \<or> c = CHR ''-'' then cs \<noteq> [] \<and> list_all isDigit cs
          else list_all isDigit s)"

text \<open>The option names that \<^verbatim>\<open>parseExtraConnStrOptions\<close> reads.\<close>

definition timeoutKeys :: "string list" where
  "timeoutKeys = [''query_timeout'', ''analytics_timeout'', ''search_timeout'', ''view_timeout'']"

text \<open>The cluster that \<^verbatim>\<open>Connect\<close> hands to \<^verbatim>\<open>parseExtraConnStrOptions\<close>.\<close>

definition initialCluster :: "ClusterOptions \<Rightarrow> (handle \<Rightarrow> client) \<Rightarrow> ConnSpec \<Rightarrow> world" where
  "initialCluster opts env spec = (clusterFromOptions opts env)\<lparr>cSpec := spec\<rparr>"

text \<open>
  The number \<open>i\<close> of milliseconds fits \<^verbatim>\<open>time.Duration\<close>: the product with \<^verbatim>\<open>time.Millisecond\<close>
  is an \<^verbatim>\<open>int64\<close>.
\<close>

definition fitsDuration :: "int \<Rightarrow> bool" where
  "fitsDuration i \<longleftrightarrow> - (2 ^ 63) \<le> i * 1000000 \<and> i * 1000000 < 2 ^ 63"

subsection \<open>Waiting\<close>

text \<open>The state \<^verbatim>\<open>WaitUntilReady\<close> waits for: the one asked for, online when none is.\<close>

definition desiredStateOf :: "WaitUntilReadyOptions option \<Rightarrow> ClusterState" where
  "desiredStateOf opts =
     (case opts of
        None \<Rightarrow> ClusterStateOnline
      | Some x \<Rightarrow> if DesiredState x = 0 then ClusterStateOnline else DesiredState x)"

text \<open>The transport of client \<open>h\<close> has reached state \<open>st\<close> by time \<open>t\<close>.\<close>

definition reachedBy :: "world \<Rightarrow> handle \<Rightarrow> ClusterState \<Rightarrow> Time \<Rightarrow> bool" where
  "reachedBy w h st t \<longleftrightarrow> (case readyAt (heap w h) st of Some r \<Rightarrow> r \<le> t | None \<Rightarrow> False)"

subsection \<open>Acquiring buckets\<close>

text \<open>
  The bootstrap error that \<^verbatim>\<open>Bucket\<close> records on a new client: the error of building its
  configuration or, when that succeeds, the error of connecting; none when both succeed.
\<close>

definition bootstrapOutcome :: "client \<Rightarrow> error option" where
  "bootstrapOutcome cl =
     (case buildConfigResult cl of
        Some e \<Rightarrow> Some e
      | None \<Rightarrow> connectResult cl)"

text \<open>
  The connection factory is invoked for the fingerprint \<open>f\<close>: \<^verbatim>\<open>Bucket\<close> makes a new client
  for a state block with that fingerprint. \<open>factoryCalls\<close> counts these events in a trace.
\<close>

definition isFactoryCall :: "fingerprint \<Rightarrow> string \<Rightarrow> event \<Rightarrow> bool" where
  "isFactoryCall hashf f ev =
     (case ev of
        EvNewClient h org \<Rightarrow> (case org of ForBucket s \<Rightarrow> hashf s = f | ClusterLevel \<Rightarrow> False)
      | _ \<Rightarrow> False)"

definition factoryCalls :: "fingerprint \<Rightarrow> string \<Rightarrow> event list \<Rightarrow> nat" where
  "factoryCalls hashf f tr = length (filter (isFactoryCall hashf f) tr)"

text \<open>
  A registry as \<^verbatim>\<open>Connect\<close> and \<^verbatim>\<open>Bucket\<close> leave it: the keys are those of a map, no two
  keys share a handle, and every handle has been handed out.
\<close>

definition wellFormed :: "world \<Rightarrow> bool" where
  "wellFormed w \<longleftrightarrow>
     distinct (map fst (connections w)) \<and> distinct (map snd (connections w))
     \<and> list_all (\<lambda>kc. snd kc < nextHandle w) (connections w)"

text \<open>Calls of \<^verbatim>\<open>Bucket\<close> one after another, each returning before the next starts.\<close>

fun acquireAll :: "fingerprint \<Rightarrow> string list \<Rightarrow> world \<Rightarrow> Bucket list \<times> world" where
  "acquireAll hashf [] w = ([], w)"
| "acquireAll hashf (n # ns) w =
     (let (b, w1) = Bucket hashf n w;
          (bs, w2) = acquireAll hashf ns w1
      in (b # bs, w2))"

text \<open>What shutting down the cluster-level client and bootstrapping a new client write
  to the trace.\<close>

definition retireEvents :: "world \<Rightarrow> event list" where
  "retireEvents w =
     (case clusterClient w of
        None \<Rightarrow> []
      | Some cc \<Rightarrow> if supportsGCCCPResult (heap w cc) then [] else closeEvents w cc)"

definition createEvents :: "world \<Rightarrow> stateBlock \<Rightarrow> event list" where
  "createEvents w s =
     EvNewClient (nextHandle w) (ForBucket s) # EvBuildConfig (nextHandle w)
       # (if buildConfigResult (heap w (nextHandle w)) = None then [EvConnect (nextHandle w)] else [])"

text \<open>
  The trace and the registry agree: the factory has been invoked once for every
  fingerprint in the registry and never for any other.
\<close>

definition registryCounted :: "fingerprint \<Rightarrow> world \<Rightarrow> bool" where
  "registryCounted hashf w \<longleftrightarrow>
     (\<forall>f. factoryCalls hashf f (trace w) = (if f \<in> fst ` set (connections w) then 1 else 0))"

section \<open>Example inputs\<close>

text \<open>The zero value of \<^verbatim>\<open>ClusterOptions\<close>: a caller that sets nothing.\<close>

definition zeroOptions :: ClusterOptions where
  "zeroOptions =
     \<lparr> opts_Authenticator = None, opts_Username = [], opts_Password = [],
       opts_TimeoutsConfig =
         \<lparr> tc_ConnectTimeout = 0, tc_KVTimeout = 0, tc_KVDurableTimeout = 0,
           tc_ViewTimeout = 0, tc_QueryTimeout = 0, tc_AnalyticsTimeout = 0,
           tc_SearchTimeout = 0, tc_ManagementTimeout = 0 \<rparr>,
       opts_Transcoder = None, opts_RetryStrategy = None, opts_Tracer = None,
       opts_OrphanReporterConfig = \<lparr> Disabled = False, ReportInterval = 0, SampleSize = 0 \<rparr>,
       opts_CircuitBreakerConfig = 0,
       opts_IoConfig = \<lparr> DisableMutationTokens = False, DisableServerDurations = False \<rparr>,
       opts_SecurityConfig = 0, opts_InternalConfig = 0 \<rparr>"

text \<open>A client that bootstraps, is connected, closes cleanly and supports GCCCP.\<close>

definition goodClient :: client where
  "goodClient =
     \<lparr> bootstrapErr = None, buildConfigResult = None, connectResult = None,
       connectedResult = (True, None), closeResult = None, supportsGCCCPResult = True,
       providerErr = (\<lambda>cap. None), readyAt = (\<lambda>st. Some 0) \<rparr>"

text \<open>
  Five clients for the scan: one with a bootstrap error, one whose connectivity check
  fails, one that is not connected, and two good ones.
\<close>

definition scanHeap :: "handle \<Rightarrow> client" where
  "scanHeap h =
     (if h = 0 then goodClient\<lparr>bootstrapErr := Some (ErrExternal ''auth failure'')\<rparr>
      else if h = 1 then goodClient\<lparr>connectedResult := (False, Some (ErrExternal ''shutdown''))\<rparr>
      else if h = 2 then goodClient\<lparr>connectedResult := (False, None)\<rparr>
      else goodClient)"

definition scanWorld :: "(string \<times> handle) list \<Rightarrow> world" where
  "scanWorld conns =
     (clusterFromOptions zeroOptions scanHeap)\<lparr>connections := conns, nextHandle := 5\<rparr>"

text \<open>
  A cluster older than Couchbase Server 6.5 right after \<^verbatim>\<open>Connect\<close>: the cluster-level
  client is there and does not support GCCCP, and no bucket has been opened.
\<close>

definition legacyHeap :: "handle \<Rightarrow> client" where
  "legacyHeap h = goodClient\<lparr>supportsGCCCPResult := False\<rparr>"

definition legacyWorld :: world where
  "legacyWorld = (clusterFromOptions zeroOptions legacyHeap)\<lparr>clusterClient := Some 0, nextHandle := 1\<rparr>"

text \<open>Clients 1 and 3 fail to close; the others close cleanly.\<close>

definition closeHeap :: "handle \<Rightarrow> client" where
  "closeHeap h =
     (if h = 1 then goodClient\<lparr>closeResult := Some (ErrExternal ''reset by peer'')\<rparr>
      else if h = 3 then goodClient\<lparr>closeResult := Some (ErrExternal ''timed out'')\<rparr>
      else goodClient)"

definition closeWorld :: "(string \<times> handle) list \<Rightarrow> handle option \<Rightarrow> world" where
  "closeWorld conns cc =
     (clusterFromOptions zeroOptions closeHeap)
       \<lparr>connections := conns, clusterClient := cc, nextHandle := 5\<rparr>"

text \<open>
  The answers of the connection-string parser on the connection strings of the examples
  (a string without a scheme prefix has the empty scheme), and a world in which every
  client bootstraps.
\<close>

definition exampleParse :: "string \<Rightarrow> error + ConnSpec" where
  "exampleParse s =
     (if s = ''couchbase://localhost'' then Inr \<lparr> Scheme = ''couchbase'', Options = Map.empty \<rparr>
      else if s = ''http://localhost'' then Inr \<lparr> Scheme = ''http'', Options = Map.empty \<rparr>
      else if s = ''localhost'' then Inr \<lparr> Scheme = [], Options = Map.empty \<rparr>
      else if s = ''couchbase://localhost?query_timeout=5000''
        then Inr \<lparr> Scheme = ''couchbase'', Options = [''query_timeout'' \<mapsto> [''5000'']] \<rparr>
      else if s = ''couchbase://localhost?query_timeout=abc''
        then Inr \<lparr> Scheme = ''couchbase'', Options = [''query_timeout'' \<mapsto> [''abc'']] \<rparr>
      else if s = ''couchbase://localhost?query_timeout=0''
        then Inr \<lparr> Scheme = ''couchbase'', Options = [''query_timeout'' \<mapsto> [''0'']] \<rparr>
      else if s = ''couchbase://localhost?query_timeout=-5''
        then Inr \<lparr> Scheme = ''couchbase'', Options = [''query_timeout'' \<mapsto> [''-5'']] \<rparr>
      else if s = ''couchbase://localhost?query_timeout=9223372036854775807''
        then Inr \<lparr> Scheme = ''couchbase'',
                   Options = [''query_timeout'' \<mapsto> [''9223372036854775807'']] \<rparr>
      else if s = ''couchbase://localhost?view_timeout=abc&view_timeout=250''
        then Inr \<lparr> Scheme = ''couchbase'', Options = [''view_timeout'' \<mapsto> [''abc'', ''250'']] \<rparr>
      else Inl (ErrExternal ''bad scheme''))"

definition goodEnv :: "handle \<Rightarrow> client" where
  "goodEnv h = goodClient"

text \<open>
  Three cluster-level clients: one whose transport is online at time 100 and never
  degraded or offline (state 2), one that never comes online, and one that cannot hand
  out a wait-until-ready provider and never comes online either.
\<close>

definition waitHeap :: "handle \<Rightarrow> client" where
  "waitHeap h =
     (if h = 0
        then goodClient\<lparr>readyAt := (\<lambda>st. if st = ClusterStateOnline then Some 100 else None)\<rparr>
      else if h = 1 then goodClient\<lparr>readyAt := (\<lambda>st. None)\<rparr>
      else goodClient\<lparr>readyAt := (\<lambda>st. None),
                     providerErr := (\<lambda>cap. if cap = CapWaitUntilReady
                                          then Some (ErrExternal ''no agent'') else None)\<rparr>)"

definition waitWorld :: "handle option \<Rightarrow> world" where
  "waitWorld cc = (clusterFromOptions zeroOptions waitHeap)\<lparr>clusterClient := cc, nextHandle := 3\<rparr>"

text \<open>A caller that sets a negative query timeout and nothing else.\<close>

definition negativeOptions :: ClusterOptions where
  "negativeOptions =
     zeroOptions\<lparr>opts_TimeoutsConfig :=
       (opts_TimeoutsConfig zeroOptions)\<lparr>tc_QueryTimeout := - 5 * Millisecond\<rparr>\<rparr>"

text \<open>
  Modelled from the spec: a fingerprint derived from the bucket name and from fields that
  affect the connection, here the key-value timeout (in nanoseconds, as decimal digits)
  and the mutation-token toggle. It stands for the functions \<^verbatim>\<open>Hash()\<close> and \<^verbatim>\<open>hash()\<close> in
  the examples.
\<close>

fun decimal :: "nat \<Rightarrow> string" where
  "decimal n =
     (if n < 10 then [''0123456789'' ! n]
      else decimal (n div 10) @ [''0123456789'' ! (n mod 10)])"

definition exampleFingerprint :: fingerprint where
  "exampleFingerprint s =
     BucketName s @ ''|'' @ decimal (nat (KvTimeout s)) @ ''|''
       @ (if UseMutationTokens s then ''t'' else ''f'')"

text \<open>
  The result of \<^verbatim>\<open>Connect\<close> with no options on \<^verbatim>\<open>couchbase://localhost\<close>, in a world whose
  clients are \<open>env\<close>.
\<close>

definition connectedWorld :: "(handle \<Rightarrow> client) \<Rightarrow> world" where
  "connectedWorld env =
     (initialCluster zeroOptions env \<lparr> Scheme = ''couchbase'', Options = Map.empty \<rparr>)
       \<lparr>clusterClient := Some 0,
        supportsGCCCP := supportsGCCCPResult (env 0),
        heap := env(0 := (env 0)\<lparr>bootstrapErr := None\<rparr>),
        nextHandle := 1,
        trace := [EvTracerAddRef ThresholdLoggingTracer,
                  EvNewClient 0 ClusterLevel, EvBuildConfig 0, EvConnect 0]\<rparr>"

text \<open>A world in which the second client, the first one made for a bucket, cannot
  connect.\<close>

definition flakyEnv :: "handle \<Rightarrow> client" where
  "flakyEnv h =
     (if h = 1 then goodClient\<lparr>connectResult := Some (ErrExternal ''authentication failure'')\<rparr>
      else goodClient)"

section \<open>Theorems\<close>

subsection \<open>Fields of a new cluster\<close>

lemma clusterFromOptions_heap: "heap (clusterFromOptions opts env) = env"
  by (simp add: clusterFromOptions_def Let_def split del: if_split)

lemma clusterFromOptions_connections: "connections (clusterFromOptions opts env) = []"
  by (simp add: clusterFromOptions_def Let_def split del: if_split)

lemma clusterFromOptions_clusterClient: "clusterClient (clusterFromOptions opts env) = None"
  by (simp add: clusterFromOptions_def Let_def split del: if_split)

lemma clusterFromOptions_nextHandle: "nextHandle (clusterFromOptions opts env) = 0"
  by (simp add: clusterFromOptions_def Let_def split del: if_split)

lemma clusterFromOptions_trace:
  "trace (clusterFromOptions opts env) =
     [EvTracerAddRef (case opts_Tracer opts of Some t \<Rightarrow> t | None \<Rightarrow> ThresholdLoggingTracer)]"
  by (simp add: clusterFromOptions_def Let_def split del: if_split)

lemma clusterFromOptions_Tracer:
  "Tracer (sb (clusterFromOptions opts env)) =
     Some (case opts_Tracer opts of Some t \<Rightarrow> t | None \<Rightarrow> ThresholdLoggingTracer)"
  by (simp add: clusterFromOptions_def Let_def split del: if_split)

lemma scanWorld_heap: "heap (scanWorld cs) = scanHeap"
  by (simp add: scanWorld_def clusterFromOptions_heap)

lemma scanWorld_connections: "connections (scanWorld cs) = cs"
  by (simp add: scanWorld_def)

subsection \<open>The fallback scan\<close>

lemma usable_no_error: "usable w h \<Longrightarrow> recordedError w h = None"
  by (simp add: usable_def recordedError_def)

lemma randomClient_loop_fst:
  "fst (randomClient_loop w cs None fe) = find (usable w) (map snd cs)"
proof (induction cs arbitrary: fe)
  case Nil
  show ?case by simp
next
  case (Cons kc cs)
  obtain k c where kc: "kc = (k, c)" by (cases kc)
  show ?case
    unfolding kc
    by (cases "connectedResult (heap w c)")
       (auto simp: Cons.IH usable_def getBootstrapError_def client_connected_def
             split: option.splits)
qed

lemma randomClient_loop_snd:
  "find (usable w) (map snd cs) = None \<Longrightarrow>
   snd (randomClient_loop w cs None fe) =
     (case fe of
        Some e \<Rightarrow> Some e
      | None \<Rightarrow> (case List.map_filter (recordedError w) (map snd cs) of
                  [] \<Rightarrow> None
                | e # _ \<Rightarrow> Some e))"
proof (induction cs arbitrary: fe)
  case Nil
  show ?case by (simp add: List.map_filter_simps split: option.splits)
next
  case (Cons kc cs)
  obtain k c where kc: "kc = (k, c)" by (cases kc)
  from Cons.prems have nu: "\<not> usable w c" and rest: "find (usable w) (map snd cs) = None"
    by (auto simp: kc split: if_splits)
  show ?case
    unfolding kc using nu
    by (cases "connectedResult (heap w c)")
       (auto simp: Cons.IH [OF rest] usable_def recordedError_def getBootstrapError_def
             client_connected_def List.map_filter_simps
             split: option.splits)
qed

text \<open>
  What the scan of the specification selects: the first usable handle in the order
  visited, and never a handle with a bootstrap error.
\<close>

lemma fallbackScan_selects_first_usable:
  "fallbackScan w hs = Inr h \<longleftrightarrow>
     (\<exists>pre post. hs = pre @ h # post \<and> usable w h \<and> (\<forall>x \<in> set pre. \<not> usable w x))"
proof
  assume "fallbackScan w hs = Inr h"
  then have "find (usable w) hs = Some h"
    by (auto simp: fallbackScan_def split: option.splits list.splits)
  then obtain i where i: "i < length hs" "usable w (hs ! i)" "h = hs ! i"
      "\<forall>j<i. \<not> usable w (hs ! j)"
    by (auto simp: find_Some_iff)
  have "hs = take i hs @ h # drop (Suc i) hs"
    using i(1,3) by (simp add: id_take_nth_drop)
  moreover have "\<forall>x \<in> set (take i hs). \<not> usable w x"
    using i(1,4) by (auto simp: in_set_conv_nth)
  ultimately show "\<exists>pre post. hs = pre @ h # post \<and> usable w h \<and> (\<forall>x \<in> set pre. \<not> usable w x)"
    using i(2,3) by blast
next
  assume "\<exists>pre post. hs = pre @ h # post \<and> usable w h \<and> (\<forall>x \<in> set pre. \<not> usable w x)"
  then obtain pre post where p: "hs = pre @ h # post" "usable w h" "\<forall>x \<in> set pre. \<not> usable w x"
    by blast
  have "find (usable w) (pre @ h # post) = Some h"
    using p(2,3) by (induction pre) auto
  then show "fallbackScan w hs = Inr h"
    by (simp add: fallbackScan_def p(1))
qed

lemma fallbackScan_never_bootstrap_error:
  "fallbackScan w hs = Inr h \<Longrightarrow> h \<in> set hs \<and> bootstrapErr (heap w h) = None"
  using fallbackScan_selects_first_usable [of w hs h] by (auto simp: usable_def)

lemma fallbackScan_first_error:
  assumes "\<forall>x \<in> set (pre @ h # post). \<not> usable w x"
    and "\<forall>x \<in> set pre. recordedError w x = None"
    and "recordedError w h = Some e"
  shows "fallbackScan w (pre @ h # post) = Inl e"
proof -
  have "find (usable w) (pre @ h # post) = None"
    using assms(1) by (auto simp: find_None_iff)
  moreover have "List.map_filter (recordedError w) (pre @ h # post)
      = e # List.map_filter (recordedError w) post"
    using assms(2,3) by (induction pre) (auto simp: List.map_filter_simps)
  ultimately show ?thesis
    by (simp add: fallbackScan_def)
qed

lemma fallbackScan_not_connected:
  assumes "\<forall>x \<in> set hs. \<not> usable w x \<and> recordedError w x = None"
  shows "fallbackScan w hs = Inl ErrNotConnected"
proof -
  have "find (usable w) hs = None"
    using assms by (auto simp: find_None_iff)
  moreover have "List.map_filter (recordedError w) hs = []"
    using assms by (induction hs) (auto simp: List.map_filter_simps)
  ultimately show ?thesis
    by (simp add: fallbackScan_def)
qed

text \<open>
  Claim C3. For every registry, and every order in which the loop visits it,
  \<^verbatim>\<open>randomClient\<close> is the fallback scan of the specification: it returns the first handle
  that has no bootstrap error and reports connected, skipping the handles with a
  bootstrap error or a failing connectivity check (the first such error is kept) and the
  handles that are not connected; with no such handle it fails with "not connected" when
  no error was recorded, and with the first recorded error otherwise.
\<close>

theorem randomClient_is_fallbackScan:
  "randomClient w = fallbackScan w (map snd (connections w))"
proof (cases "connections w = []")
  case True
  then show ?thesis
    by (simp add: randomClient_def fallbackScan_def List.map_filter_simps)
next
  case ne: False
  obtain a b where ab: "randomClient_loop w (connections w) None None = (a, b)"
    by (cases "randomClient_loop w (connections w) None None")
  have a: "a = find (usable w) (map snd (connections w))"
    using randomClient_loop_fst [of w "connections w" None] by (simp add: ab)
  show ?thesis
  proof (cases a)
    case (Some h)
    then show ?thesis
      using a ne by (simp add: randomClient_def fallbackScan_def ab)
  next
    case None
    then have nf: "find (usable w) (map snd (connections w)) = None"
      using a by simp
    have b: "b = (case List.map_filter (recordedError w) (map snd (connections w)) of
                    [] \<Rightarrow> None
                  | e # _ \<Rightarrow> Some e)"
      using randomClient_loop_snd [OF nf, of None] by (simp add: ab)
    show ?thesis
      using None nf ne
      by (simp add: randomClient_def fallbackScan_def ab b split: list.splits)
  qed
qed

text \<open>
  The scan at three registries: a good handle behind two failed ones and an idle one is
  selected; with no good handle the first error in the order visited is returned, here
  that of the connectivity check, which comes before the bootstrap error; an idle
  handle alone gives "not connected".
\<close>

theorem randomClient_is_fallbackScan_witness:
  "randomClient (scanWorld [(''a'', 0), (''b'', 1), (''c'', 2), (''d'', 3), (''e'', 4)]) = Inr 3
   \<and> randomClient (scanWorld [(''c'', 2), (''b'', 1), (''a'', 0)]) = Inl (ErrExternal ''shutdown'')
   \<and> randomClient (scanWorld [(''c'', 2)]) = Inl ErrNotConnected"
  by (simp add: randomClient_is_fallbackScan fallbackScan_def usable_def recordedError_def
        scanWorld_heap scanWorld_connections scanHeap_def goodClient_def
        List.map_filter_simps)

subsection \<open>The cluster-level client and the registry\<close>

lemma legacyWorld_fields:
  "heap legacyWorld = legacyHeap" "connections legacyWorld = []" "clusterClient legacyWorld = Some 0"
  by (simp_all add: legacyWorld_def clusterFromOptions_heap clusterFromOptions_connections)

lemma empty_slot_empty_registry:
  assumes "clusterClient w = None" and "connections w = []"
  shows "clusterOrRandomClient w = Inl ErrNotConnected"
  using assms by (simp add: clusterOrRandomClient_def randomClient_def)

text \<open>
  Claim C1, as amended. When the cluster-level slot holds a handle that does not support
  GCCCP, whatever the registry holds, \<^verbatim>\<open>clusterOrRandomClient\<close> and the five provider
  getters do not use that handle and do not scan the registry: they fail with the error
  "the cluster does not support cluster-level queries", not with "not connected".
\<close>

theorem clusterClient_without_GCCCP_is_rejected:
  assumes "clusterClient w = Some cli" and "\<not> client_supportsGCCCP w cli"
  shows "clusterOrRandomClient w = Inl ErrNoClusterLevelQueries
    \<and> getDiagnosticsProvider w = Inl ErrNoClusterLevelQueries
    \<and> getQueryProvider w = Inl ErrNoClusterLevelQueries
    \<and> getAnalyticsProvider w = Inl ErrNoClusterLevelQueries
    \<and> getSearchProvider w = Inl ErrNoClusterLevelQueries
    \<and> getHTTPProvider w = Inl ErrNoClusterLevelQueries"
  using assms
  by (simp add: clusterOrRandomClient_def getProviderFor_def getDiagnosticsProvider_def
        getQueryProvider_def getAnalyticsProvider_def getSearchProvider_def
        getHTTPProvider_def)

theorem clusterClient_without_GCCCP_is_rejected_witness:
  "clusterClient legacyWorld = Some 0 \<and> \<not> client_supportsGCCCP legacyWorld 0
   \<and> clusterOrRandomClient legacyWorld = Inl ErrNoClusterLevelQueries
   \<and> getSearchProvider legacyWorld = Inl ErrNoClusterLevelQueries"
proof -
  have a: "clusterClient legacyWorld = Some 0"
    by (simp add: legacyWorld_fields)
  have b: "\<not> client_supportsGCCCP legacyWorld 0"
    by (simp add: client_supportsGCCCP_def legacyWorld_fields legacyHeap_def goodClient_def)
  show ?thesis
    using a b clusterClient_without_GCCCP_is_rejected [OF a b] by simp
qed

text \<open>
  The claim as stated fails on the legacy cluster: the registry is empty, the slot holds
  a handle without GCCCP support, and the query provider is refused with an error that is
  not "not connected".
\<close>

theorem no_fallthrough_counterexample:
  "connections legacyWorld = [] \<and> clusterClient legacyWorld = Some 0
   \<and> \<not> client_supportsGCCCP legacyWorld 0
   \<and> getQueryProvider legacyWorld = Inl ErrNoClusterLevelQueries
   \<and> getQueryProvider legacyWorld \<noteq> Inl ErrNotConnected"
  by (simp add: getQueryProvider_def getProviderFor_def clusterOrRandomClient_def
        client_supportsGCCCP_def legacyWorld_fields legacyHeap_def goodClient_def)

subsection \<open>Close\<close>

lemma closeWorld_fields:
  "heap (closeWorld conns cc) = closeHeap"
  "connections (closeWorld conns cc) = conns"
  "clusterClient (closeWorld conns cc) = cc"
  "trace (closeWorld conns cc) = [EvTracerAddRef ThresholdLoggingTracer]"
  "Tracer (sb (closeWorld conns cc)) = Some ThresholdLoggingTracer"
  by (simp_all add: closeWorld_def clusterFromOptions_heap clusterFromOptions_trace
        clusterFromOptions_Tracer zeroOptions_def)

lemma errorsOf_simps:
  "errorsOf [] = []" "errorsOf (None # rs) = errorsOf rs" "errorsOf (Some e # rs) = e # errorsOf rs"
  by (simp_all add: errorsOf_def List.map_filter_simps)

lemma errorsOf_append: "errorsOf (xs @ ys) = errorsOf xs @ errorsOf ys"
  by (simp add: errorsOf_def List.map_filter_def)

lemma lastError_Cons:
  "lastError (r # rs) = (case lastError rs of Some e \<Rightarrow> Some e | None \<Rightarrow> r)"
  by (cases r) (auto simp: lastError_def errorsOf_simps split: list.splits)

lemma lastError_snoc:
  "lastError (rs @ [r]) = (case r of Some e \<Rightarrow> Some e | None \<Rightarrow> lastError rs)"
  by (cases r) (auto simp: lastError_def errorsOf_simps errorsOf_append split: list.splits)

lemma decRefCount_append: "decRefCount (xs @ ys) = decRefCount xs + decRefCount ys"
  by (simp add: decRefCount_def)

lemma decRefCount_closeEvents: "decRefCount (concat (map (closeEvents w) hs)) = 0"
  by (induction hs) (auto simp: decRefCount_def closeEvents_def split: option.splits)

lemma Close_loop_effects:
  "Close_loop es oe w = (err, w') \<Longrightarrow>
     heap w' = heap w \<and> sb w' = sb w \<and> clusterClient w' = clusterClient w
     \<and> nextHandle w' = nextHandle w
     \<and> trace w' = trace w @ concat (map (closeEvents w) (map snd es))
     \<and> connections w' = fold (\<lambda>kc. AList.delete (fst kc)) es (connections w)
     \<and> err = (case lastError (map (\<lambda>h. closeResult (heap w h)) (map snd es)) of
                 Some e \<Rightarrow> Some e
               | None \<Rightarrow> oe)"
proof (induction es arbitrary: oe w)
  case Nil
  then show ?case by (simp add: lastError_def errorsOf_simps)
next
  case (Cons kc es)
  obtain k c where kc: "kc = (k, c)" by (cases kc)
  show ?case
  proof (cases "closeResult (heap w c)")
    case None
    let ?w3 = "(emit (EvClose c) w)\<lparr>connections := AList.delete k (connections w)\<rparr>"
    have step: "Close_loop es oe ?w3 = (err, w')"
      using Cons.prems by (simp add: kc client_close_def None emit_def)
    from Cons.IH [OF step] show ?thesis
      by (simp add: kc emit_def closeEvents_def None lastError_Cons split: option.splits)
  next
    case (Some e)
    let ?w3 = "(logWarnf e (emit (EvClose c) w))\<lparr>connections := AList.delete k (connections w)\<rparr>"
    have step: "Close_loop es (Some e) ?w3 = (err, w')"
      using Cons.prems by (simp add: kc client_close_def Some emit_def logWarnf_def)
    from Cons.IH [OF step] show ?thesis
      by (simp add: kc emit_def logWarnf_def closeEvents_def Some lastError_Cons
            split: option.splits)
  qed
qed

lemma delete_all_keys:
  "fst ` set cs \<subseteq> fst ` set es \<Longrightarrow> fold (\<lambda>kc. AList.delete (fst kc)) es cs = []"
proof (induction es arbitrary: cs)
  case Nil
  then show ?case by simp
next
  case (Cons kc es)
  have "fst ` set (AList.delete (fst kc) cs) \<subseteq> fst ` set es"
    using Cons.prems by (auto simp: AList.delete_eq)
  from Cons.IH [OF this] show ?case by simp
qed

text \<open>
  Claim C2, as amended. \<^verbatim>\<open>Close\<close> on a cluster that holds its tracer closes every registry
  entry in the order visited and then the cluster-level client, whether or not earlier
  closes failed, logs every failure, empties the registry, releases the tracer exactly
  once as its last effect, and returns the error of the last close that failed (none if
  none failed).
\<close>

theorem Close_closes_all_returns_last_error:
  assumes "Close w = (err, w')" and "Tracer (sb w) = Some t"
  shows "trace w' = trace w @ concat (map (closeEvents w) (closeTargets w)) @ [EvTracerDecRef t]
    \<and> decRefCount (trace w') = decRefCount (trace w) + 1
    \<and> connections w' = []
    \<and> err = lastError (map (\<lambda>h. closeResult (heap w h)) (closeTargets w))
    \<and> Tracer (sb w') = None"
proof -
  obtain e1 w1 where l: "Close_loop (connections w) None w = (e1, w1)"
    by (cases "Close_loop (connections w) None w")
  note L = Close_loop_effects [OF l]
  have c1: "connections w1 = []"
    using L delete_all_keys [of "connections w" "connections w"] by simp
  have e1: "e1 = lastError (map (\<lambda>h. closeResult (heap w h)) (map snd (connections w)))"
    using L by (simp split: option.splits)
  have tr: "trace w' = trace w @ concat (map (closeEvents w) (closeTargets w)) @ [EvTracerDecRef t]"
    and cs: "connections w' = []"
    and er: "err = lastError (map (\<lambda>h. closeResult (heap w h)) (closeTargets w))"
    and tn: "Tracer (sb w') = None"
    using assms L c1 e1
    by (auto simp: Close_def l client_close_def emit_def logWarnf_def closeTargets_def
          closeEvents_def lastError_snoc split: option.splits)
  have "decRefCount (trace w') = decRefCount (trace w) + 1"
    unfolding tr by (simp add: decRefCount_append decRefCount_closeEvents) (simp add: decRefCount_def)
  with tr cs er tn show ?thesis by simp
qed


text \<open>
  Three entries of which the second fails to close: all three and the cluster-level
  client are closed, the failure is logged and returned, the tracer is released once.
\<close>

theorem Close_closes_all_returns_last_error_witness:
  "fst (Close (closeWorld [(''a'', 0), (''b'', 1), (''c'', 2)] (Some 4)))
     = Some (ErrExternal ''reset by peer'')
   \<and> connections (snd (Close (closeWorld [(''a'', 0), (''b'', 1), (''c'', 2)] (Some 4)))) = []
   \<and> trace (snd (Close (closeWorld [(''a'', 0), (''b'', 1), (''c'', 2)] (Some 4))))
     = [EvTracerAddRef ThresholdLoggingTracer, EvClose 0, EvClose 1,
        EvLogWarn (ErrExternal ''reset by peer''), EvClose 2, EvClose 4,
        EvTracerDecRef ThresholdLoggingTracer]"
proof -
  let ?w = "closeWorld [(''a'', 0), (''b'', 1), (''c'', 2)] (Some 4)"
  have c: "Close ?w = (fst (Close ?w), snd (Close ?w))" by simp
  have t: "Tracer (sb ?w) = Some ThresholdLoggingTracer" by (simp add: closeWorld_fields)
  show ?thesis
    using Close_closes_all_returns_last_error [OF c t]
    by (simp add: closeWorld_fields closeTargets_def closeEvents_def closeHeap_def
          goodClient_def lastError_def errorsOf_simps)
qed

text \<open>
  The claim as stated fails when two closes fail: in either order of the two entries,
  \<^verbatim>\<open>Close\<close> returns the error of the second close, not of the first.
\<close>

theorem Close_first_error_counterexample:
  "fst (Close (closeWorld [(''a'', 1), (''b'', 3)] None)) = Some (ErrExternal ''timed out'')
   \<and> firstError (map (\<lambda>h. closeResult (heap (closeWorld [(''a'', 1), (''b'', 3)] None) h)) [1, 3])
       = Some (ErrExternal ''reset by peer'')
   \<and> fst (Close (closeWorld [(''b'', 3), (''a'', 1)] None)) = Some (ErrExternal ''reset by peer'')
   \<and> firstError (map (\<lambda>h. closeResult (heap (closeWorld [(''b'', 3), (''a'', 1)] None) h)) [3, 1])
       = Some (ErrExternal ''timed out'')"
  by (simp add: Close_def client_close_def emit_def logWarnf_def closeWorld_fields
        closeHeap_def goodClient_def firstError_def errorsOf_simps AList.delete_eq)

subsection \<open>Connection strings and construction\<close>

lemma clusterFromOptions_timeouts:
  "ConnectTimeout (sb (clusterFromOptions opts env)) =
     (if tc_ConnectTimeout (opts_TimeoutsConfig opts) > 0
      then tc_ConnectTimeout (opts_TimeoutsConfig opts) else 10000 * Millisecond)"
  "KvTimeout (sb (clusterFromOptions opts env)) =
     (if tc_KVTimeout (opts_TimeoutsConfig opts) > 0
      then tc_KVTimeout (opts_TimeoutsConfig opts) else 2500 * Millisecond)"
  "KvDurableTimeout (sb (clusterFromOptions opts env)) =
     (if tc_KVDurableTimeout (opts_TimeoutsConfig opts) > 0
      then tc_KVDurableTimeout (opts_TimeoutsConfig opts) else 10000 * Millisecond)"
  "ViewTimeout (sb (clusterFromOptions opts env)) =
     (if tc_ViewTimeout (opts_TimeoutsConfig opts) > 0
      then tc_ViewTimeout (opts_TimeoutsConfig opts) else 75000 * Millisecond)"
  "QueryTimeout (sb (clusterFromOptions opts env)) =
     (if tc_QueryTimeout (opts_TimeoutsConfig opts) > 0
      then tc_QueryTimeout (opts_TimeoutsConfig opts) else 75000 * Millisecond)"
  "AnalyticsTimeout (sb (clusterFromOptions opts env)) =
     (if tc_AnalyticsTimeout (opts_TimeoutsConfig opts) > 0
      then tc_AnalyticsTimeout (opts_TimeoutsConfig opts) else 75000 * Millisecond)"
  "SearchTimeout (sb (clusterFromOptions opts env)) =
     (if tc_SearchTimeout (opts_TimeoutsConfig opts) > 0
      then tc_SearchTimeout (opts_TimeoutsConfig opts) else 75000 * Millisecond)"
  "ManagementTimeout (sb (clusterFromOptions opts env)) =
     (if tc_ManagementTimeout (opts_TimeoutsConfig opts) > 0
      then tc_ManagementTimeout (opts_TimeoutsConfig opts) else 75000 * Millisecond)"
  by (simp_all add: clusterFromOptions_def Let_def split del: if_split)

lemma digitVal_None: "digitVal c = None \<longleftrightarrow> \<not> isDigit c"
  by (auto simp: digitVal_def isDigit_def Let_def)

lemma digitVal_Some: "digitVal c = Some d \<Longrightarrow> isDigit c"
  using digitVal_None [of c] by auto

lemma ParseUint_loop_Some: "ParseUint_loop cs n = Some m \<Longrightarrow> list_all isDigit cs"
  by (induction cs arbitrary: n) (auto dest: digitVal_Some split: option.splits)

lemma ParseInt_Some_numeric:
  assumes "ParseInt s = Some n"
  shows "numeric s \<and> - (2 ^ 63) \<le> n \<and> n < 2 ^ 63"
proof -
  from assms obtain c cs where s: "s = c # cs"
    by (cases s) (auto simp: ParseInt_def)
  show ?thesis
  proof (cases "c = CHR ''+'' \<or> c = CHR ''-''")
    case True
    with assms s obtain un where un: "ParseUint cs = Some un"
      by (auto simp: ParseInt_def split: option.splits)
    then have "cs \<noteq> []" "list_all isDigit cs"
      by (auto simp: ParseUint_def dest: ParseUint_loop_Some split: if_splits)
    moreover have "- (2 ^ 63) \<le> n \<and> n < 2 ^ 63"
      using assms s un True by (auto simp: ParseInt_def split: if_splits)
    ultimately show ?thesis using True by (simp add: numeric_def s)
  next
    case False
    with assms s obtain un where un: "ParseUint s = Some un"
      by (auto simp: ParseInt_def split: option.splits)
    then have "list_all isDigit s"
      by (auto simp: ParseUint_def dest: ParseUint_loop_Some split: if_splits)
    moreover have "- (2 ^ 63) \<le> n \<and> n < 2 ^ 63"
      using assms s un False by (auto simp: ParseInt_def split: if_splits)
    ultimately show ?thesis using False by (simp add: numeric_def s)
  qed
qed

lemma ParseInt_not_numeric: "\<not> numeric s \<Longrightarrow> ParseInt s = None"
  using ParseInt_Some_numeric [of s] by (cases "ParseInt s") auto

lemma wrap64_id: "- (2 ^ 63) \<le> x \<Longrightarrow> x < 2 ^ 63 \<Longrightarrow> wrap64 x = x"
  by (simp add: wrap64_def)

lemma fetchOption_last:
  "fetchOption spec k =
     (case Options spec k of
        None \<Rightarrow> None
      | Some vs \<Rightarrow> if vs = [] then None else Some (last vs))"
  by (auto simp: fetchOption_def Let_def last_conv_nth split: option.splits)

lemma parseExtra_frame:
  assumes "parseExtraConnStrOptions spec c = Inr c'"
  shows "connections c' = connections c \<and> clusterClient c' = clusterClient c
    \<and> heap c' = heap c \<and> nextHandle c' = nextHandle c \<and> trace c' = trace c
    \<and> cSpec c' = cSpec c \<and> supportsGCCCP c' = supportsGCCCP c \<and> auth c' = auth c
    \<and> ConnectTimeout (sb c') = ConnectTimeout (sb c)
    \<and> KvTimeout (sb c') = KvTimeout (sb c)
    \<and> KvDurableTimeout (sb c') = KvDurableTimeout (sb c)
    \<and> ManagementTimeout (sb c') = ManagementTimeout (sb c)
    \<and> Tracer (sb c') = Tracer (sb c)"
  using assms
  by (auto simp: parseExtraConnStrOptions_def split: option.splits sum.splits)

lemma parseExtra_values:
  assumes "parseExtraConnStrOptions spec c = Inr c'"
  shows "(case fetchOption spec ''query_timeout'' of
            None \<Rightarrow> QueryTimeout (sb c') = QueryTimeout (sb c)
          | Some v \<Rightarrow> \<exists>n. ParseInt v = Some n \<and> QueryTimeout (sb c') = mulDuration n Millisecond)"
    and "(case fetchOption spec ''analytics_timeout'' of
            None \<Rightarrow> AnalyticsTimeout (sb c') = AnalyticsTimeout (sb c)
          | Some v \<Rightarrow> \<exists>n. ParseInt v = Some n \<and> AnalyticsTimeout (sb c') = mulDuration n Millisecond)"
    and "(case fetchOption spec ''search_timeout'' of
            None \<Rightarrow> SearchTimeout (sb c') = SearchTimeout (sb c)
          | Some v \<Rightarrow> \<exists>n. ParseInt v = Some n \<and> SearchTimeout (sb c') = mulDuration n Millisecond)"
    and "(case fetchOption spec ''view_timeout'' of
            None \<Rightarrow> ViewTimeout (sb c') = ViewTimeout (sb c)
          | Some v \<Rightarrow> \<exists>n. ParseInt v = Some n \<and> ViewTimeout (sb c') = mulDuration n Millisecond)"
  using assms
  by (auto simp: parseExtraConnStrOptions_def split: option.splits sum.splits)

lemma parseExtra_failure:
  assumes "k \<in> set timeoutKeys" and "fetchOption spec k = Some v" and "ParseInt v = None"
  shows "\<exists>k' \<in> set timeoutKeys. parseExtraConnStrOptions spec c = Inl (ErrOptionNotNumber k')"
  using assms
  by (auto simp: parseExtraConnStrOptions_def timeoutKeys_def split: option.splits sum.splits)

lemma parseExtra_total:
  assumes "\<forall>k \<in> set timeoutKeys. \<forall>v. fetchOption spec k = Some v \<longrightarrow> ParseInt v \<noteq> None"
  shows "\<exists>c'. parseExtraConnStrOptions spec c = Inr c'"
  using assms
  by (auto simp: parseExtraConnStrOptions_def timeoutKeys_def split: option.splits sum.splits)

lemma Connect_Inr:
  assumes "Connect parse connStr opts env = Inr w"
  shows "\<exists>spec c1. parse connStr = Inr spec \<and> Scheme spec \<noteq> ''http''
     \<and> parseExtraConnStrOptions spec (initialCluster opts env spec) = Inr c1
     \<and> buildConfigResult (env 0) = None \<and> connectResult (env 0) = None
     \<and> w = c1\<lparr>clusterClient := Some 0, supportsGCCCP := supportsGCCCPResult (env 0),
              heap := env(0 := (env 0)\<lparr>bootstrapErr := None\<rparr>), nextHandle := 1,
              trace := trace c1 @ [EvNewClient 0 ClusterLevel, EvBuildConfig 0, EvConnect 0]\<rparr>"
proof -
  from assms obtain spec where spec: "parse connStr = Inr spec" and ns: "Scheme spec \<noteq> ''http''"
    by (auto simp: Connect_def split: sum.splits if_splits)
  from assms spec ns obtain c1 where
    c1: "parseExtraConnStrOptions spec (initialCluster opts env spec) = Inr c1"
    by (auto simp: Connect_def initialCluster_def Let_def split: sum.splits)
  note fr = parseExtra_frame [OF c1]
  have h: "heap c1 = env" "nextHandle c1 = 0"
    using fr by (simp_all add: initialCluster_def clusterFromOptions_heap clusterFromOptions_nextHandle)
  from assms spec ns c1 h show ?thesis
    by (auto simp: Connect_def initialCluster_def [symmetric] Let_def newClient_def
          client_buildConfig_def client_connect_def client_supportsGCCCP_def emit_def
          split: option.splits)
qed

lemma Connect_success:
  assumes "parse connStr = Inr spec" and "Scheme spec \<noteq> ''http''"
    and "parseExtraConnStrOptions spec (initialCluster opts env spec) = Inr c1"
    and "buildConfigResult (env 0) = None" and "connectResult (env 0) = None"
  shows "Connect parse connStr opts env =
     Inr (c1\<lparr>clusterClient := Some 0, supportsGCCCP := supportsGCCCPResult (env 0),
              heap := env(0 := (env 0)\<lparr>bootstrapErr := None\<rparr>), nextHandle := 1,
              trace := trace c1 @ [EvNewClient 0 ClusterLevel, EvBuildConfig 0, EvConnect 0]\<rparr>)"
proof -
  note fr = parseExtra_frame [OF assms(3)]
  have h: "heap c1 = env" "nextHandle c1 = 0"
    using fr by (simp_all add: initialCluster_def clusterFromOptions_heap clusterFromOptions_nextHandle)
  from assms h show ?thesis
    by (auto simp: Connect_def initialCluster_def [symmetric] Let_def newClient_def
          client_buildConfig_def client_connect_def client_supportsGCCCP_def emit_def
          split: option.splits)
qed

lemma parseExtra_no_options:
  "Options spec = Map.empty \<Longrightarrow> parseExtraConnStrOptions spec c = Inr c"
  by (simp add: parseExtraConnStrOptions_def fetchOption_def)

text \<open>
  Claim C10, as amended. When the parsed scheme is "http", \<^verbatim>\<open>Connect\<close> returns the error
  "http scheme is not supported" and no cluster. It is the only scheme that \<^verbatim>\<open>Connect\<close>
  itself refuses: with any other scheme the parser returns, a cluster is returned as soon
  as the options parse and the cluster-level client bootstraps.
\<close>

theorem Connect_rejects_http_only:
  assumes "parse connStr = Inr spec"
  shows "(Scheme spec = ''http'' \<longrightarrow> Connect parse connStr opts env = Inl ErrHttpScheme)
     \<and> (Scheme spec \<noteq> ''http''
          \<and> parseExtraConnStrOptions spec (initialCluster opts env spec) = Inr c1
          \<and> buildConfigResult (env 0) = None \<and> connectResult (env 0) = None \<longrightarrow>
        \<not> isl (Connect parse connStr opts env)
        \<and> cSpec (projr (Connect parse connStr opts env)) = spec
        \<and> clusterClient (projr (Connect parse connStr opts env)) = Some 0)"
proof -
  have "Scheme spec = ''http'' \<Longrightarrow> Connect parse connStr opts env = Inl ErrHttpScheme"
    using assms by (simp add: Connect_def)
  moreover have "\<not> isl (Connect parse connStr opts env)
        \<and> cSpec (projr (Connect parse connStr opts env)) = spec
        \<and> clusterClient (projr (Connect parse connStr opts env)) = Some 0"
    if a: "Scheme spec \<noteq> ''http''"
      "parseExtraConnStrOptions spec (initialCluster opts env spec) = Inr c1"
      "buildConfigResult (env 0) = None" "connectResult (env 0) = None"
  proof -
    have "cSpec c1 = spec"
      using parseExtra_frame [OF a(2)] by (simp add: initialCluster_def)
    then show ?thesis
      using Connect_success [where parse = parse and connStr = connStr, OF assms a]
      by simp
  qed
  ultimately show ?thesis by blast
qed

theorem Connect_rejects_http_only_witness:
  "Connect exampleParse ''http://localhost'' zeroOptions goodEnv = Inl ErrHttpScheme
   \<and> \<not> isl (Connect exampleParse ''couchbase://localhost'' zeroOptions goodEnv)
   \<and> Scheme (cSpec (projr (Connect exampleParse ''couchbase://localhost'' zeroOptions goodEnv)))
       = ''couchbase''"
proof -
  let ?h = "\<lparr> Scheme = ''http'', Options = Map.empty \<rparr>"
  let ?c = "\<lparr> Scheme = ''couchbase'', Options = Map.empty \<rparr>"
  have h: "exampleParse ''http://localhost'' = Inr ?h"
    by (simp add: exampleParse_def)
  have c: "exampleParse ''couchbase://localhost'' = Inr ?c"
    by (simp add: exampleParse_def)
  have p: "parseExtraConnStrOptions ?c (initialCluster zeroOptions goodEnv ?c)
      = Inr (initialCluster zeroOptions goodEnv ?c)"
    by (simp add: parseExtra_no_options)
  show ?thesis
    using Connect_rejects_http_only
        [where parse = exampleParse and connStr = "''http://localhost''", OF h,
         where opts = zeroOptions and env = goodEnv]
      Connect_rejects_http_only
        [where parse = exampleParse and connStr = "''couchbase://localhost''", OF c,
         where opts = zeroOptions and env = goodEnv
           and ?c1.0 = "initialCluster zeroOptions goodEnv ?c"] p
    by (simp add: goodEnv_def goodClient_def)
qed

text \<open>
  The claim as stated fails on a connection string without a scheme: its scheme is
  neither "couchbase" nor "couchbases", and \<^verbatim>\<open>Connect\<close> returns a cluster.
\<close>

theorem Connect_accepts_no_scheme_counterexample:
  "\<not> isl (Connect exampleParse ''localhost'' zeroOptions goodEnv)
   \<and> Scheme (cSpec (projr (Connect exampleParse ''localhost'' zeroOptions goodEnv))) = []
   \<and> clusterClient (projr (Connect exampleParse ''localhost'' zeroOptions goodEnv)) = Some 0"
proof -
  let ?s = "\<lparr> Scheme = [], Options = Map.empty \<rparr>"
  have s: "exampleParse ''localhost'' = Inr ?s"
    by (simp add: exampleParse_def)
  have p: "parseExtraConnStrOptions ?s (initialCluster zeroOptions goodEnv ?s)
      = Inr (initialCluster zeroOptions goodEnv ?s)"
    by (simp add: parseExtra_no_options)
  have "cSpec (initialCluster zeroOptions goodEnv ?s) = ?s"
    by (simp add: initialCluster_def)
  then show ?thesis
    using Connect_success
      [where parse = exampleParse and connStr = "''localhost''", OF s _ p]
    by (simp add: goodEnv_def goodClient_def)
qed

subsection \<open>WaitUntilReady\<close>

lemma waitWorld_fields:
  "heap (waitWorld cc) = waitHeap" "clusterClient (waitWorld cc) = cc"
  by (simp_all add: waitWorld_def clusterFromOptions_heap)

lemma WaitUntilReady_no_client:
  "clusterClient w = None \<Longrightarrow>
   WaitUntilReady now timeout opts w = (Some ErrClusterNotConnected, now)"
  by (simp add: WaitUntilReady_def)

lemma WaitUntilReady_no_provider:
  "clusterClient w = Some cli \<Longrightarrow> providerErr (heap w cli) CapWaitUntilReady = Some e \<Longrightarrow>
   WaitUntilReady now timeout opts w = (Some e, now)"
  by (simp add: WaitUntilReady_def client_getProvider_def)

lemma WaitUntilReady_delegates:
  "clusterClient w = Some cli \<Longrightarrow> providerErr (heap w cli) CapWaitUntilReady = None \<Longrightarrow>
   WaitUntilReady now timeout opts w =
     provider_WaitUntilReady w (Provider cli CapWaitUntilReady) now (now + timeout)
       (desiredStateOf opts)"
  by (cases "provider_WaitUntilReady w (Provider cli CapWaitUntilReady) now (now + timeout)
               (desiredStateOf opts)")
     (auto simp: WaitUntilReady_def client_getProvider_def desiredStateOf_def Let_def
           split: option.splits)

text \<open>
  Claim C9, as amended. Without a cluster-level client \<^verbatim>\<open>WaitUntilReady\<close> fails at once
  with "cluster is not connected"; with one that cannot hand out a wait-until-ready
  provider it fails at once with the getter's error. Otherwise it blocks on the provider
  with the deadline \<open>now + timeout\<close> and the desired state (online when none is given): it
  returns without an error as soon as the state is reached, when that is no later than
  the deadline, and otherwise returns the provider's timeout error at the deadline.
\<close>

theorem WaitUntilReady_fails_at_once_or_blocks:
  "(clusterClient w = None \<longrightarrow>
      WaitUntilReady now timeout opts w = (Some ErrClusterNotConnected, now))
   \<and> (clusterClient w = Some cli \<and> providerErr (heap w cli) CapWaitUntilReady = Some e \<longrightarrow>
      WaitUntilReady now timeout opts w = (Some e, now))
   \<and> (clusterClient w = Some cli \<and> providerErr (heap w cli) CapWaitUntilReady = None
        \<and> readyAt (heap w cli) (desiredStateOf opts) = Some t \<and> t \<le> now + timeout \<longrightarrow>
      WaitUntilReady now timeout opts w = (None, max now t))
   \<and> (clusterClient w = Some cli \<and> providerErr (heap w cli) CapWaitUntilReady = None
        \<and> \<not> reachedBy w cli (desiredStateOf opts) (now + timeout) \<and> 0 \<le> timeout \<longrightarrow>
      WaitUntilReady now timeout opts w = (Some ErrTimeout, now + timeout))"
proof -
  have "WaitUntilReady now timeout opts w = (None, max now t)"
    if "clusterClient w = Some cli" "providerErr (heap w cli) CapWaitUntilReady = None"
      "readyAt (heap w cli) (desiredStateOf opts) = Some t" "t \<le> now + timeout"
    using that by (simp add: WaitUntilReady_delegates)
  moreover have "WaitUntilReady now timeout opts w = (Some ErrTimeout, now + timeout)"
    if "clusterClient w = Some cli" "providerErr (heap w cli) CapWaitUntilReady = None"
      "\<not> reachedBy w cli (desiredStateOf opts) (now + timeout)" "0 \<le> timeout"
    using that
    by (auto simp: WaitUntilReady_delegates reachedBy_def max_def split: option.splits)
  ultimately show ?thesis
    using WaitUntilReady_no_client [of w now timeout opts]
      WaitUntilReady_no_provider [of w cli e now timeout opts]
    by blast
qed

text \<open>
  No cluster-level client: "cluster is not connected" at once. A transport online at
  time 100: a wait of 150 from time 0 returns at 100 without an error, a wait of 50
  returns the timeout at 50, and so does a wait for a state that is never reached.
\<close>

theorem WaitUntilReady_fails_at_once_or_blocks_witness:
  "WaitUntilReady 0 50 None (waitWorld None) = (Some ErrClusterNotConnected, 0)
   \<and> WaitUntilReady 0 150 None (waitWorld (Some 0)) = (None, 100)
   \<and> WaitUntilReady 0 50 None (waitWorld (Some 0)) = (Some ErrTimeout, 50)
   \<and> WaitUntilReady 0 150 (Some \<lparr> DesiredState = 2 \<rparr>) (waitWorld (Some 0)) = (Some ErrTimeout, 150)
   \<and> WaitUntilReady 0 50 None (waitWorld (Some 2)) = (Some (ErrExternal ''no agent''), 0)"
  using WaitUntilReady_fails_at_once_or_blocks
      [where w = "waitWorld None" and now = 0 and timeout = 50 and opts = None]
    WaitUntilReady_fails_at_once_or_blocks
      [where w = "waitWorld (Some 0)" and cli = 0 and now = 0 and timeout = 150 and opts = None
         and t = 100]
    WaitUntilReady_fails_at_once_or_blocks
      [where w = "waitWorld (Some 0)" and cli = 0 and now = 0 and timeout = 50 and opts = None]
    WaitUntilReady_fails_at_once_or_blocks
      [where w = "waitWorld (Some 0)" and cli = 0 and now = 0 and timeout = 150
         and opts = "Some \<lparr> DesiredState = 2 \<rparr>"]
    WaitUntilReady_fails_at_once_or_blocks
      [where w = "waitWorld (Some 2)" and cli = 2 and now = 0 and timeout = 50 and opts = None
         and e = "ErrExternal ''no agent''"]
  by (simp add: waitWorld_fields waitHeap_def goodClient_def desiredStateOf_def reachedBy_def
        ClusterStateOnline_def)

text \<open>
  The claim as stated fails when the cluster-level client is there but cannot hand out
  the provider: the transport never comes online, yet the call neither reports "cluster
  is not connected" nor blocks until the timeout; it returns the getter's error at once.
\<close>

theorem WaitUntilReady_provider_error_counterexample:
  "clusterClient (waitWorld (Some 2)) = Some 2
   \<and> readyAt (heap (waitWorld (Some 2)) 2) ClusterStateOnline = None
   \<and> WaitUntilReady 0 50 None (waitWorld (Some 2)) = (Some (ErrExternal ''no agent''), 0)
   \<and> WaitUntilReady 0 50 None (waitWorld (Some 2)) \<noteq> (Some ErrClusterNotConnected, 0)
   \<and> WaitUntilReady 0 50 None (waitWorld (Some 2)) \<noteq> (Some ErrTimeout, 50)"
  by (simp add: WaitUntilReady_def client_getProvider_def waitWorld_fields waitHeap_def
        goodClient_def)

subsection \<open>Timeouts from the connection string\<close>

lemma Connect_option_failure:
  assumes "parse connStr = Inr spec" and "Scheme spec \<noteq> ''http''"
    and "parseExtraConnStrOptions spec (initialCluster opts env spec) = Inl e"
  shows "Connect parse connStr opts env = Inl e"
  using assms by (simp add: Connect_def initialCluster_def Let_def)

lemma parseExtra_query_failure:
  assumes "fetchOption spec ''query_timeout'' = Some v" and "ParseInt v = None"
  shows "parseExtraConnStrOptions spec c = Inl (ErrOptionNotNumber ''query_timeout'')"
  using assms by (simp add: parseExtraConnStrOptions_def)

lemma mulDuration_exact:
  "- (2 ^ 63) \<le> n * 1000000 \<Longrightarrow> n * 1000000 < 2 ^ 63 \<Longrightarrow> mulDuration n Millisecond = n * Millisecond"
  by (simp add: mulDuration_def Millisecond_def wrap64_id)

lemma Connect_override_values:
  assumes "parse connStr = Inr spec" and w: "Connect parse connStr opts env = Inr w"
  shows "(case fetchOption spec ''query_timeout'' of
           None \<Rightarrow> QueryTimeout (sb w) = QueryTimeout (sb (clusterFromOptions opts env))
         | Some s \<Rightarrow> \<exists>i. ParseInt s = Some i \<and> QueryTimeout (sb w) = mulDuration i Millisecond)
      \<and> (case fetchOption spec ''analytics_timeout'' of
           None \<Rightarrow> AnalyticsTimeout (sb w) = AnalyticsTimeout (sb (clusterFromOptions opts env))
         | Some s \<Rightarrow> \<exists>i. ParseInt s = Some i \<and> AnalyticsTimeout (sb w) = mulDuration i Millisecond)
      \<and> (case fetchOption spec ''search_timeout'' of
           None \<Rightarrow> SearchTimeout (sb w) = SearchTimeout (sb (clusterFromOptions opts env))
         | Some s \<Rightarrow> \<exists>i. ParseInt s = Some i \<and> SearchTimeout (sb w) = mulDuration i Millisecond)
      \<and> (case fetchOption spec ''view_timeout'' of
           None \<Rightarrow> ViewTimeout (sb w) = ViewTimeout (sb (clusterFromOptions opts env))
         | Some s \<Rightarrow> \<exists>i. ParseInt s = Some i \<and> ViewTimeout (sb w) = mulDuration i Millisecond)"
proof -
  from Connect_Inr [OF w] assms(1) obtain c1 where
    c1: "parseExtraConnStrOptions spec (initialCluster opts env spec) = Inr c1"
    and sbw: "sb w = sb c1"
    by auto
  have i: "sb (initialCluster opts env spec) = sb (clusterFromOptions opts env)"
    by (simp add: initialCluster_def)
  show ?thesis
    unfolding sbw i [symmetric]
    using parseExtra_values [OF c1] by blast
qed

lemma Connect_bad_option:
  assumes "parse connStr = Inr spec" and "Scheme spec \<noteq> ''http''"
    and "k \<in> set timeoutKeys" and "fetchOption spec k = Some v" and "ParseInt v = None"
  shows "\<exists>k' \<in> set timeoutKeys. Connect parse connStr opts env = Inl (ErrOptionNotNumber k')"
proof -
  from parseExtra_failure [OF assms(3,4,5)] obtain k' where
    "k' \<in> set timeoutKeys"
    "parseExtraConnStrOptions spec (initialCluster opts env spec) = Inl (ErrOptionNotNumber k')"
    by blast
  then show ?thesis
    using Connect_option_failure [where parse = parse and connStr = connStr, OF assms(1,2)]
    by blast
qed

lemma mulDuration_fits: "fitsDuration i \<Longrightarrow> mulDuration i Millisecond = i * Millisecond"
  by (simp add: fitsDuration_def mulDuration_exact)

text \<open>
  Claim C7, as amended. For a connection string that parses to \<open>spec\<close> with a scheme other
  than "http": \<^verbatim>\<open>fetchOption\<close> reads the last value of an option and nothing when there is
  none; when \<^verbatim>\<open>Connect\<close> returns a cluster, the last value of each of the four options
  that is present parses as a decimal integer, and whenever that many milliseconds fit
  \<^verbatim>\<open>time.Duration\<close> the corresponding timeout is exactly that many milliseconds, while a
  timeout whose option is absent keeps the value from the options; when the last value
  of one of the four options does not parse, \<^verbatim>\<open>Connect\<close> returns the error "<name> option
  must be a number" and no cluster; and a string that is not numeric does not parse.
\<close>

theorem connstr_timeout_overrides:
  assumes "parse connStr = Inr spec" and "Scheme spec \<noteq> ''http''"
  shows "fetchOption spec k =
       (case Options spec k of
          None \<Rightarrow> None
        | Some vs \<Rightarrow> if vs = [] then None else Some (last vs))
   \<and> (Connect parse connStr opts env = Inr w \<longrightarrow>
        (case fetchOption spec ''query_timeout'' of
           None \<Rightarrow> QueryTimeout (sb w) = QueryTimeout (sb (clusterFromOptions opts env))
         | Some s \<Rightarrow> \<exists>i. ParseInt s = Some i
                       \<and> (fitsDuration i \<longrightarrow> QueryTimeout (sb w) = i * Millisecond))
      \<and> (case fetchOption spec ''analytics_timeout'' of
           None \<Rightarrow> AnalyticsTimeout (sb w) = AnalyticsTimeout (sb (clusterFromOptions opts env))
         | Some s \<Rightarrow> \<exists>i. ParseInt s = Some i
                       \<and> (fitsDuration i \<longrightarrow> AnalyticsTimeout (sb w) = i * Millisecond))
      \<and> (case fetchOption spec ''search_timeout'' of
           None \<Rightarrow> SearchTimeout (sb w) = SearchTimeout (sb (clusterFromOptions opts env))
         | Some s \<Rightarrow> \<exists>i. ParseInt s = Some i
                       \<and> (fitsDuration i \<longrightarrow> SearchTimeout (sb w) = i * Millisecond))
      \<and> (case fetchOption spec ''view_timeout'' of
           None \<Rightarrow> ViewTimeout (sb w) = ViewTimeout (sb (clusterFromOptions opts env))
         | Some s \<Rightarrow> \<exists>i. ParseInt s = Some i
                       \<and> (fitsDuration i \<longrightarrow> ViewTimeout (sb w) = i * Millisecond)))
   \<and> (k \<in> set timeoutKeys \<and> fetchOption spec k = Some v \<and> ParseInt v = None \<longrightarrow>
        (\<exists>k' \<in> set timeoutKeys. Connect parse connStr opts env = Inl (ErrOptionNotNumber k')))
   \<and> (fetchOption spec ''query_timeout'' = Some v \<and> ParseInt v = None \<longrightarrow>
        Connect parse connStr opts env = Inl (ErrOptionNotNumber ''query_timeout''))
   \<and> (\<not> numeric v \<longrightarrow> ParseInt v = None)"
proof -
  have last: "fetchOption spec k =
       (case Options spec k of
          None \<Rightarrow> None
        | Some vs \<Rightarrow> if vs = [] then None else Some (last vs))"
    by (rule fetchOption_last)
  have ok: "(case fetchOption spec ''query_timeout'' of
           None \<Rightarrow> QueryTimeout (sb w) = QueryTimeout (sb (clusterFromOptions opts env))
         | Some s \<Rightarrow> \<exists>i. ParseInt s = Some i
                       \<and> (fitsDuration i \<longrightarrow> QueryTimeout (sb w) = i * Millisecond))
      \<and> (case fetchOption spec ''analytics_timeout'' of
           None \<Rightarrow> AnalyticsTimeout (sb w) = AnalyticsTimeout (sb (clusterFromOptions opts env))
         | Some s \<Rightarrow> \<exists>i. ParseInt s = Some i
                       \<and> (fitsDuration i \<longrightarrow> AnalyticsTimeout (sb w) = i * Millisecond))
      \<and> (case fetchOption spec ''search_timeout'' of
           None \<Rightarrow> SearchTimeout (sb w) = SearchTimeout (sb (clusterFromOptions opts env))
         | Some s \<Rightarrow> \<exists>i. ParseInt s = Some i
                       \<and> (fitsDuration i \<longrightarrow> SearchTimeout (sb w) = i * Millisecond))
      \<and> (case fetchOption spec ''view_timeout'' of
           None \<Rightarrow> ViewTimeout (sb w) = ViewTimeout (sb (clusterFromOptions opts env))
         | Some s \<Rightarrow> \<exists>i. ParseInt s = Some i
                       \<and> (fitsDuration i \<longrightarrow> ViewTimeout (sb w) = i * Millisecond))"
    if w: "Connect parse connStr opts env = Inr w"
    using Connect_override_values [OF assms(1) w]
    by (auto simp: mulDuration_fits split: option.splits)
  have badq: "Connect parse connStr opts env = Inl (ErrOptionNotNumber ''query_timeout'')"
    if "fetchOption spec ''query_timeout'' = Some v" "ParseInt v = None"
    using Connect_option_failure [where parse = parse and connStr = connStr, OF assms
        parseExtra_query_failure [OF that]] .
  show ?thesis
    using last ok badq ParseInt_not_numeric [of v]
      Connect_bad_option [where parse = parse and connStr = connStr, OF assms, of k v opts env]
    by blast
qed

lemma exampleParse_values:
  "exampleParse ''couchbase://localhost'' = Inr \<lparr> Scheme = ''couchbase'', Options = Map.empty \<rparr>"
  "exampleParse ''couchbase://localhost?query_timeout=5000''
     = Inr \<lparr> Scheme = ''couchbase'', Options = [''query_timeout'' \<mapsto> [''5000'']] \<rparr>"
  "exampleParse ''couchbase://localhost?query_timeout=abc''
     = Inr \<lparr> Scheme = ''couchbase'', Options = [''query_timeout'' \<mapsto> [''abc'']] \<rparr>"
  "exampleParse ''couchbase://localhost?query_timeout=0''
     = Inr \<lparr> Scheme = ''couchbase'', Options = [''query_timeout'' \<mapsto> [''0'']] \<rparr>"
  "exampleParse ''couchbase://localhost?view_timeout=abc&view_timeout=250''
     = Inr \<lparr> Scheme = ''couchbase'', Options = [''view_timeout'' \<mapsto> [''abc'', ''250'']] \<rparr>"
  by (simp_all add: exampleParse_def)

lemma exampleParse_more:
  "exampleParse ''couchbase://localhost?query_timeout=-5''
     = Inr \<lparr> Scheme = ''couchbase'', Options = [''query_timeout'' \<mapsto> [''-5'']] \<rparr>"
  "exampleParse ''couchbase://localhost?query_timeout=9223372036854775807''
     = Inr \<lparr> Scheme = ''couchbase'',
             Options = [''query_timeout'' \<mapsto> [''9223372036854775807'']] \<rparr>"
  by (simp_all add: exampleParse_def)

lemma parseExtra_query_only:
  assumes "ParseInt v = Some i"
  shows "parseExtraConnStrOptions \<lparr> Scheme = s, Options = [''query_timeout'' \<mapsto> vs @ [v]] \<rparr> c
     = Inr (c\<lparr>sb := (sb c)\<lparr>QueryTimeout := mulDuration i Millisecond\<rparr>\<rparr>)"
  using assms by (simp add: parseExtraConnStrOptions_def fetchOption_def nth_append)

lemma parseExtra_view_only:
  assumes "ParseInt v = Some i"
  shows "parseExtraConnStrOptions \<lparr> Scheme = s, Options = [''view_timeout'' \<mapsto> vs @ [v]] \<rparr> c
     = Inr (c\<lparr>sb := (sb c)\<lparr>ViewTimeout := mulDuration i Millisecond\<rparr>\<rparr>)"
  using assms by (simp add: parseExtraConnStrOptions_def fetchOption_def nth_append)

lemma ParseInt_examples:
  "ParseInt ''5000'' = Some 5000" "ParseInt ''0'' = Some 0" "ParseInt ''250'' = Some 250"
  "ParseInt ''abc'' = None" "ParseInt ''-5'' = Some (- 5)"
  "ParseInt ''9223372036854775807'' = Some 9223372036854775807"
  by (simp_all add: ParseInt_def ParseUint_def digitVal_def)

lemma goodEnv_bootstraps:
  "buildConfigResult (goodEnv 0) = None" "connectResult (goodEnv 0) = None"
  by (simp_all add: goodEnv_def goodClient_def)

text \<open>
  \<^verbatim>\<open>query_timeout=5000\<close> gives a query timeout of five seconds; \<^verbatim>\<open>query_timeout=abc\<close> makes
  \<^verbatim>\<open>Connect\<close> fail; of \<^verbatim>\<open>view_timeout=abc&view_timeout=250\<close> only the last value is read.
\<close>

theorem connstr_timeout_overrides_witness:
  "QueryTimeout
     (sb (projr (Connect exampleParse ''couchbase://localhost?query_timeout=5000''
                   zeroOptions goodEnv))) = 5 * Second
   \<and> \<not> isl (Connect exampleParse ''couchbase://localhost?query_timeout=5000'' zeroOptions goodEnv)
   \<and> Connect exampleParse ''couchbase://localhost?query_timeout=abc'' zeroOptions goodEnv
       = Inl (ErrOptionNotNumber ''query_timeout'')
   \<and> ViewTimeout
       (sb (projr (Connect exampleParse ''couchbase://localhost?view_timeout=abc&view_timeout=250''
                     zeroOptions goodEnv))) = 250 * Millisecond"
proof -
  let ?q = "\<lparr> Scheme = ''couchbase'', Options = [''query_timeout'' \<mapsto> [''5000'']] \<rparr>"
  let ?a = "\<lparr> Scheme = ''couchbase'', Options = [''query_timeout'' \<mapsto> [''abc'']] \<rparr>"
  let ?v = "\<lparr> Scheme = ''couchbase'', Options = [''view_timeout'' \<mapsto> [''abc'', ''250'']] \<rparr>"
  have pq: "parseExtraConnStrOptions ?q (initialCluster zeroOptions goodEnv ?q)
      = Inr ((initialCluster zeroOptions goodEnv ?q)
               \<lparr>sb := (sb (initialCluster zeroOptions goodEnv ?q))
                        \<lparr>QueryTimeout := mulDuration 5000 Millisecond\<rparr>\<rparr>)"
    using parseExtra_query_only [OF ParseInt_examples(1), of "''couchbase''" "[]"] by simp
  have pv: "parseExtraConnStrOptions ?v (initialCluster zeroOptions goodEnv ?v)
      = Inr ((initialCluster zeroOptions goodEnv ?v)
               \<lparr>sb := (sb (initialCluster zeroOptions goodEnv ?v))
                        \<lparr>ViewTimeout := mulDuration 250 Millisecond\<rparr>\<rparr>)"
    using parseExtra_view_only [OF ParseInt_examples(3), of "''couchbase''" "[''abc'']"] by simp
  note cq = Connect_success
      [where parse = exampleParse and connStr = "''couchbase://localhost?query_timeout=5000''",
       OF exampleParse_values(2) _ pq goodEnv_bootstraps, simplified]
  note cv = Connect_success
      [where parse = exampleParse
         and connStr = "''couchbase://localhost?view_timeout=abc&view_timeout=250''",
       OF exampleParse_values(5) _ pv goodEnv_bootstraps, simplified]
  have fq: "fetchOption ?q ''query_timeout'' = Some ''5000''"
    and fa: "fetchOption ?a ''query_timeout'' = Some ''abc''"
    and fv: "fetchOption ?v ''view_timeout'' = Some ''250''"
    by (simp_all add: fetchOption_def)
  have 1: "QueryTimeout
     (sb (projr (Connect exampleParse ''couchbase://localhost?query_timeout=5000''
                   zeroOptions goodEnv))) = 5 * Second"
    using connstr_timeout_overrides
      [where parse = exampleParse and connStr = "''couchbase://localhost?query_timeout=5000''"
         and opts = zeroOptions and env = goodEnv,
       OF exampleParse_values(2),
       where w = "projr (Connect exampleParse ''couchbase://localhost?query_timeout=5000''
                   zeroOptions goodEnv)"]
    by (simp add: cq fq ParseInt_examples fitsDuration_def Millisecond_def Second_def)
  have 2: "Connect exampleParse ''couchbase://localhost?query_timeout=abc'' zeroOptions goodEnv
       = Inl (ErrOptionNotNumber ''query_timeout'')"
    using connstr_timeout_overrides
      [where parse = exampleParse and connStr = "''couchbase://localhost?query_timeout=abc''"
         and opts = zeroOptions and env = goodEnv,
       OF exampleParse_values(3), where v = "''abc''"]
    by (simp add: fa ParseInt_examples)
  have 3: "ViewTimeout
       (sb (projr (Connect exampleParse ''couchbase://localhost?view_timeout=abc&view_timeout=250''
                     zeroOptions goodEnv))) = 250 * Millisecond"
    using connstr_timeout_overrides
      [where parse = exampleParse
         and connStr = "''couchbase://localhost?view_timeout=abc&view_timeout=250''"
         and opts = zeroOptions and env = goodEnv,
       OF exampleParse_values(5),
       where w = "projr (Connect exampleParse
                   ''couchbase://localhost?view_timeout=abc&view_timeout=250''
                   zeroOptions goodEnv)"]
    by (simp add: cv fv ParseInt_examples fitsDuration_def Millisecond_def)
  show ?thesis
    using 1 2 3 by (simp add: cq)
qed
text \<open>
  The claim as stated fails on \<^verbatim>\<open>query_timeout=9223372036854775807\<close>: the value parses,
  \<^verbatim>\<open>Connect\<close> returns a cluster, and its query timeout is minus one millisecond, not that
  many milliseconds.
\<close>

theorem query_timeout_overflow_counterexample:
  "ParseInt ''9223372036854775807'' = Some 9223372036854775807
   \<and> \<not> isl (Connect exampleParse ''couchbase://localhost?query_timeout=9223372036854775807''
               zeroOptions goodEnv)
   \<and> QueryTimeout
        (sb (projr (Connect exampleParse
                      ''couchbase://localhost?query_timeout=9223372036854775807''
                      zeroOptions goodEnv))) = - Millisecond
   \<and> - Millisecond \<noteq> 9223372036854775807 * Millisecond"
proof -
  let ?s = "\<lparr> Scheme = ''couchbase'',
               Options = [''query_timeout'' \<mapsto> [''9223372036854775807'']] \<rparr>"
  have p: "parseExtraConnStrOptions ?s (initialCluster zeroOptions goodEnv ?s)
      = Inr ((initialCluster zeroOptions goodEnv ?s)
               \<lparr>sb := (sb (initialCluster zeroOptions goodEnv ?s))
                        \<lparr>QueryTimeout := mulDuration 9223372036854775807 Millisecond\<rparr>\<rparr>)"
    using parseExtra_query_only [OF ParseInt_examples(6), of "''couchbase''" "[]"] by simp
  show ?thesis
    using Connect_success
      [where parse = exampleParse
         and connStr = "''couchbase://localhost?query_timeout=9223372036854775807''",
       OF exampleParse_more(2) _ p goodEnv_bootstraps]
    by (simp add: ParseInt_examples mulDuration_def wrap64_def Millisecond_def)
qed

subsection \<open>Timeouts are positive unless the connection string says otherwise\<close>

lemma Millisecond_pos: "0 < k \<Longrightarrow> 0 < k * Millisecond"
  by (simp add: Millisecond_def)

lemma clusterFromOptions_timeouts_positive:
  "0 < ConnectTimeout (sb (clusterFromOptions opts env))"
  "0 < KvTimeout (sb (clusterFromOptions opts env))"
  "0 < KvDurableTimeout (sb (clusterFromOptions opts env))"
  "0 < ViewTimeout (sb (clusterFromOptions opts env))"
  "0 < QueryTimeout (sb (clusterFromOptions opts env))"
  "0 < AnalyticsTimeout (sb (clusterFromOptions opts env))"
  "0 < SearchTimeout (sb (clusterFromOptions opts env))"
  "0 < ManagementTimeout (sb (clusterFromOptions opts env))"
  by (simp_all add: clusterFromOptions_timeouts Millisecond_def)

lemma clusterFromOptions_defaults:
  "tc_ConnectTimeout (opts_TimeoutsConfig opts) \<le> 0 \<Longrightarrow>
     ConnectTimeout (sb (clusterFromOptions opts env)) = 10000 * Millisecond"
  "tc_KVTimeout (opts_TimeoutsConfig opts) \<le> 0 \<Longrightarrow>
     KvTimeout (sb (clusterFromOptions opts env)) = 2500 * Millisecond"
  "tc_KVDurableTimeout (opts_TimeoutsConfig opts) \<le> 0 \<Longrightarrow>
     KvDurableTimeout (sb (clusterFromOptions opts env)) = 10000 * Millisecond"
  "tc_ViewTimeout (opts_TimeoutsConfig opts) \<le> 0 \<Longrightarrow>
     ViewTimeout (sb (clusterFromOptions opts env)) = 75000 * Millisecond"
  "tc_QueryTimeout (opts_TimeoutsConfig opts) \<le> 0 \<Longrightarrow>
     QueryTimeout (sb (clusterFromOptions opts env)) = 75000 * Millisecond"
  "tc_AnalyticsTimeout (opts_TimeoutsConfig opts) \<le> 0 \<Longrightarrow>
     AnalyticsTimeout (sb (clusterFromOptions opts env)) = 75000 * Millisecond"
  "tc_SearchTimeout (opts_TimeoutsConfig opts) \<le> 0 \<Longrightarrow>
     SearchTimeout (sb (clusterFromOptions opts env)) = 75000 * Millisecond"
  "tc_ManagementTimeout (opts_TimeoutsConfig opts) \<le> 0 \<Longrightarrow>
     ManagementTimeout (sb (clusterFromOptions opts env)) = 75000 * Millisecond"
  by (simp_all add: clusterFromOptions_timeouts)

text \<open>
  In every cluster that \<^verbatim>\<open>Connect\<close> returns, the connect, key-value, durable key-value and
  management timeouts are greater than zero, and so is each of the view, query, analytics
  and search timeouts whose option is absent from the connection string; each of these is
  the documented default whenever the caller's value is zero, negative or missing.
\<close>

lemma timeouts_positive_unless_overridden:
  assumes "parse connStr = Inr spec" and "Connect parse connStr opts env = Inr w"
  shows "0 < ConnectTimeout (sb w) \<and> 0 < KvTimeout (sb w)
    \<and> 0 < KvDurableTimeout (sb w) \<and> 0 < ManagementTimeout (sb w)
    \<and> (fetchOption spec ''view_timeout'' = None \<longrightarrow> 0 < ViewTimeout (sb w))
    \<and> (fetchOption spec ''query_timeout'' = None \<longrightarrow> 0 < QueryTimeout (sb w))
    \<and> (fetchOption spec ''analytics_timeout'' = None \<longrightarrow> 0 < AnalyticsTimeout (sb w))
    \<and> (fetchOption spec ''search_timeout'' = None \<longrightarrow> 0 < SearchTimeout (sb w))
    \<and> (tc_ConnectTimeout (opts_TimeoutsConfig opts) \<le> 0 \<longrightarrow>
          ConnectTimeout (sb w) = 10000 * Millisecond)
    \<and> (tc_KVTimeout (opts_TimeoutsConfig opts) \<le> 0 \<longrightarrow>
          KvTimeout (sb w) = 2500 * Millisecond)
    \<and> (tc_KVDurableTimeout (opts_TimeoutsConfig opts) \<le> 0 \<longrightarrow>
          KvDurableTimeout (sb w) = 10000 * Millisecond)
    \<and> (tc_ManagementTimeout (opts_TimeoutsConfig opts) \<le> 0 \<longrightarrow>
          ManagementTimeout (sb w) = 75000 * Millisecond)
    \<and> (tc_ViewTimeout (opts_TimeoutsConfig opts) \<le> 0
          \<and> fetchOption spec ''view_timeout'' = None \<longrightarrow>
          ViewTimeout (sb w) = 75000 * Millisecond)
    \<and> (tc_QueryTimeout (opts_TimeoutsConfig opts) \<le> 0
          \<and> fetchOption spec ''query_timeout'' = None \<longrightarrow>
          QueryTimeout (sb w) = 75000 * Millisecond)
    \<and> (tc_AnalyticsTimeout (opts_TimeoutsConfig opts) \<le> 0
          \<and> fetchOption spec ''analytics_timeout'' = None \<longrightarrow>
          AnalyticsTimeout (sb w) = 75000 * Millisecond)
    \<and> (tc_SearchTimeout (opts_TimeoutsConfig opts) \<le> 0
          \<and> fetchOption spec ''search_timeout'' = None \<longrightarrow>
          SearchTimeout (sb w) = 75000 * Millisecond)"
proof -
  from Connect_Inr [OF assms(2)] assms(1) obtain c1 where
    c1: "parseExtraConnStrOptions spec (initialCluster opts env spec) = Inr c1"
    and sbw: "sb w = sb c1"
    by auto
  have i: "sb (initialCluster opts env spec) = sb (clusterFromOptions opts env)"
    by (simp add: initialCluster_def)
  note fr = parseExtra_frame [OF c1, unfolded i]
  note va = parseExtra_values [OF c1, unfolded i]
  note pos = clusterFromOptions_timeouts_positive [of opts env]
  note dfl = clusterFromOptions_defaults [of opts env]
  have 1: "0 < ConnectTimeout (sb w)" "0 < KvTimeout (sb w)"
    "0 < KvDurableTimeout (sb w)" "0 < ManagementTimeout (sb w)"
    unfolding sbw using fr pos by simp_all
  have 2: "fetchOption spec ''view_timeout'' = None \<Longrightarrow> 0 < ViewTimeout (sb w)"
    "fetchOption spec ''query_timeout'' = None \<Longrightarrow> 0 < QueryTimeout (sb w)"
    "fetchOption spec ''analytics_timeout'' = None \<Longrightarrow> 0 < AnalyticsTimeout (sb w)"
    "fetchOption spec ''search_timeout'' = None \<Longrightarrow> 0 < SearchTimeout (sb w)"
    unfolding sbw using va pos by simp_all
  have 3: "tc_ConnectTimeout (opts_TimeoutsConfig opts) \<le> 0 \<Longrightarrow>
          ConnectTimeout (sb w) = 10000 * Millisecond"
    "tc_KVTimeout (opts_TimeoutsConfig opts) \<le> 0 \<Longrightarrow> KvTimeout (sb w) = 2500 * Millisecond"
    "tc_KVDurableTimeout (opts_TimeoutsConfig opts) \<le> 0 \<Longrightarrow>
          KvDurableTimeout (sb w) = 10000 * Millisecond"
    "tc_ManagementTimeout (opts_TimeoutsConfig opts) \<le> 0 \<Longrightarrow>
          ManagementTimeout (sb w) = 75000 * Millisecond"
    unfolding sbw using fr dfl by simp_all
  have 4: "tc_ViewTimeout (opts_TimeoutsConfig opts) \<le> 0 \<Longrightarrow>
       fetchOption spec ''view_timeout'' = None \<Longrightarrow> ViewTimeout (sb w) = 75000 * Millisecond"
    "tc_QueryTimeout (opts_TimeoutsConfig opts) \<le> 0 \<Longrightarrow>
       fetchOption spec ''query_timeout'' = None \<Longrightarrow> QueryTimeout (sb w) = 75000 * Millisecond"
    "tc_AnalyticsTimeout (opts_TimeoutsConfig opts) \<le> 0 \<Longrightarrow>
       fetchOption spec ''analytics_timeout'' = None \<Longrightarrow>
       AnalyticsTimeout (sb w) = 75000 * Millisecond"
    "tc_SearchTimeout (opts_TimeoutsConfig opts) \<le> 0 \<Longrightarrow>
       fetchOption spec ''search_timeout'' = None \<Longrightarrow> SearchTimeout (sb w) = 75000 * Millisecond"
    unfolding sbw using va dfl by simp_all
  show ?thesis
    using 1 2 3 4 by blast
qed
lemma timeouts_positive_on_defaults:
  "ConnectTimeout (sb (projr (Connect exampleParse ''couchbase://localhost'' zeroOptions goodEnv)))
     = 10 * Second
   \<and> KvTimeout (sb (projr (Connect exampleParse ''couchbase://localhost'' zeroOptions goodEnv)))
     = 2500 * Millisecond
   \<and> QueryTimeout (sb (projr (Connect exampleParse ''couchbase://localhost'' zeroOptions goodEnv)))
     = 75 * Second
   \<and> 0 < ViewTimeout (sb (projr (Connect exampleParse ''couchbase://localhost'' zeroOptions goodEnv)))"
proof -
  let ?c = "\<lparr> Scheme = ''couchbase'', Options = Map.empty \<rparr>"
  have p: "parseExtraConnStrOptions ?c (initialCluster zeroOptions goodEnv ?c)
      = Inr (initialCluster zeroOptions goodEnv ?c)"
    by (simp add: parseExtra_no_options)
  note c = Connect_success
      [where parse = exampleParse and connStr = "''couchbase://localhost''",
       OF exampleParse_values(1) _ p goodEnv_bootstraps, simplified]
  have z: "tc_ConnectTimeout (opts_TimeoutsConfig zeroOptions) = 0"
    "tc_KVTimeout (opts_TimeoutsConfig zeroOptions) = 0"
    "tc_QueryTimeout (opts_TimeoutsConfig zeroOptions) = 0"
    by (simp_all add: zeroOptions_def)
  have f: "fetchOption ?c k = None" for k
    by (simp add: fetchOption_def)
  have r: "Connect exampleParse ''couchbase://localhost'' zeroOptions goodEnv
    = Inr (projr (Connect exampleParse ''couchbase://localhost'' zeroOptions goodEnv))"
    by (simp add: c)
  show ?thesis
    using timeouts_positive_unless_overridden
      [where parse = exampleParse and connStr = "''couchbase://localhost''",
       OF exampleParse_values(1) r]
    by (simp add: z f Millisecond_def Second_def)
qed
text \<open>
  Claim C8 at its failing inputs. \<^verbatim>\<open>clusterFromOptions\<close> replaces a caller's negative query
  timeout by the default of 75 seconds, but \<^verbatim>\<open>parseExtraConnStrOptions\<close> stores the
  override without that test: with \<^verbatim>\<open>query_timeout=0\<close> the cluster that \<^verbatim>\<open>Connect\<close> returns has
  a query timeout of zero, and with \<^verbatim>\<open>query_timeout=-5\<close> one of minus five milliseconds.
\<close>

theorem override_skips_positive_test:
  "\<not> isl (Connect exampleParse ''couchbase://localhost?query_timeout=0'' zeroOptions goodEnv)
   \<and> QueryTimeout
        (sb (projr (Connect exampleParse ''couchbase://localhost?query_timeout=0''
                      zeroOptions goodEnv))) = 0
   \<and> \<not> isl (Connect exampleParse ''couchbase://localhost?query_timeout=-5'' zeroOptions goodEnv)
   \<and> QueryTimeout
        (sb (projr (Connect exampleParse ''couchbase://localhost?query_timeout=-5''
                      zeroOptions goodEnv))) = - 5 * Millisecond
   \<and> QueryTimeout (sb (clusterFromOptions negativeOptions goodEnv)) = 75 * Second"
proof -
  let ?z = "\<lparr> Scheme = ''couchbase'', Options = [''query_timeout'' \<mapsto> [''0'']] \<rparr>"
  let ?m = "\<lparr> Scheme = ''couchbase'', Options = [''query_timeout'' \<mapsto> [''-5'']] \<rparr>"
  have pz: "parseExtraConnStrOptions ?z (initialCluster zeroOptions goodEnv ?z)
      = Inr ((initialCluster zeroOptions goodEnv ?z)
               \<lparr>sb := (sb (initialCluster zeroOptions goodEnv ?z))
                        \<lparr>QueryTimeout := mulDuration 0 Millisecond\<rparr>\<rparr>)"
    using parseExtra_query_only [OF ParseInt_examples(2), of "''couchbase''" "[]"] by simp
  have pm: "parseExtraConnStrOptions ?m (initialCluster zeroOptions goodEnv ?m)
      = Inr ((initialCluster zeroOptions goodEnv ?m)
               \<lparr>sb := (sb (initialCluster zeroOptions goodEnv ?m))
                        \<lparr>QueryTimeout := mulDuration (- 5) Millisecond\<rparr>\<rparr>)"
    using parseExtra_query_only [OF ParseInt_examples(5), of "''couchbase''" "[]"] by simp
  have d: "QueryTimeout (sb (clusterFromOptions negativeOptions goodEnv)) = 75 * Second"
    by (simp add: clusterFromOptions_timeouts negativeOptions_def Millisecond_def Second_def)
  show ?thesis
    using Connect_success
      [where parse = exampleParse and connStr = "''couchbase://localhost?query_timeout=0''",
       OF exampleParse_values(4) _ pz goodEnv_bootstraps]
      Connect_success
      [where parse = exampleParse and connStr = "''couchbase://localhost?query_timeout=-5''",
       OF exampleParse_more(1) _ pm goodEnv_bootstraps] d
    by (simp add: mulDuration_def wrap64_def Millisecond_def)
qed

subsection \<open>Acquiring buckets\<close>

lemma retire_fields:
  "connections (retireClusterClient w) = connections w"
  "heap (retireClusterClient w) = heap w"
  "nextHandle (retireClusterClient w) = nextHandle w"
  "sb (retireClusterClient w) = sb w"
  "trace (retireClusterClient w) = trace w @ retireEvents w"
  "clusterClient (retireClusterClient w) =
     (case clusterClient w of
        None \<Rightarrow> None
      | Some cc \<Rightarrow> if supportsGCCCPResult (heap w cc) then Some cc else None)"
  by (auto simp: retireClusterClient_def client_close_def client_supportsGCCCP_def emit_def
        logWarnf_def retireEvents_def closeEvents_def split: option.splits)

lemma retire_idem: "retireClusterClient (retireClusterClient w) = retireClusterClient w"
  by (auto simp: retireClusterClient_def client_close_def client_supportsGCCCP_def emit_def
        logWarnf_def split: option.splits)


lemma createClient_eq:
  "createClient s w =
     (nextHandle w,
      w\<lparr>heap := (heap w)(nextHandle w :=
           (heap w (nextHandle w))\<lparr>bootstrapErr := bootstrapOutcome (heap w (nextHandle w))\<rparr>),
        nextHandle := Suc (nextHandle w),
        trace := trace w @ createEvents w s\<rparr>)"
  by (auto simp: createClient_def newClient_def client_buildConfig_def client_connect_def
        setBootstrapError_def emit_def bootstrapOutcome_def createEvents_def Let_def
        split: option.splits)

lemma Bucket_hit:
  assumes "getClient hashf ((sb w)\<lparr>BucketName := name\<rparr>) (retireClusterClient w) = Some cli"
  shows "Bucket hashf name w =
    (\<lparr> bsb = (sb w)\<lparr>BucketName := name\<rparr>, cachedClient = Some cli \<rparr>, retireClusterClient w)"
  using assms by (simp add: Bucket_def newBucket_def cacheClient_def Let_def)

lemma Bucket_miss:
  assumes "getClient hashf ((sb w)\<lparr>BucketName := name\<rparr>) (retireClusterClient w) = None"
  shows "Bucket hashf name w =
    (\<lparr> bsb = (sb w)\<lparr>BucketName := name\<rparr>, cachedClient = Some (nextHandle w) \<rparr>,
     (retireClusterClient w)
       \<lparr>heap := (heap w)(nextHandle w :=
           (heap w (nextHandle w))\<lparr>bootstrapErr := bootstrapOutcome (heap w (nextHandle w))\<rparr>),
        nextHandle := Suc (nextHandle w),
        trace := trace w @ retireEvents w @ createEvents w ((sb w)\<lparr>BucketName := name\<rparr>),
        connections := AList.update (hashf ((sb w)\<lparr>BucketName := name\<rparr>)) (nextHandle w)
                         (connections w)\<rparr>)"
  using assms
  by (simp add: Bucket_def newBucket_def cacheClient_def Let_def createClient_eq
        registerClient_def retire_fields createEvents_def)


lemma update_absent: "k \<notin> fst ` set al \<Longrightarrow> AList.update k v al = al @ [(k, v)]"
  by (induction al) auto

lemma map_of_absent: "map_of al k = None \<longleftrightarrow> k \<notin> fst ` set al"
  by (simp add: map_of_eq_None_iff)

lemma factoryCalls_append:
  "factoryCalls hashf f (xs @ ys) = factoryCalls hashf f xs + factoryCalls hashf f ys"
  by (simp add: factoryCalls_def)

lemma factoryCalls_retireEvents: "factoryCalls hashf f (retireEvents w) = 0"
  by (auto simp: factoryCalls_def retireEvents_def closeEvents_def isFactoryCall_def
        split: option.splits)

lemma factoryCalls_createEvents:
  "factoryCalls hashf f (createEvents w s) = (if hashf s = f then 1 else 0)"
  by (auto simp: factoryCalls_def createEvents_def isFactoryCall_def)

lemma Bucket_effects:
  assumes wf: "wellFormed w" and B: "Bucket hashf name w = (b, w1)"
  shows "wellFormed w1"
    and "sb w1 = sb w"
    and "nextHandle w \<le> nextHandle w1"
    and "h < nextHandle w \<Longrightarrow> heap w1 h = heap w h"
    and "map_of (connections w) k = Some h \<Longrightarrow> map_of (connections w1) k = Some h"
    and "bsb b = (sb w)\<lparr>BucketName := name\<rparr>"
    and "cachedClient b = map_of (connections w1) (hashf (bsb b))"
    and "cachedClient b \<noteq> None"
    and "factoryCalls hashf f (trace w1) =
           factoryCalls hashf f (trace w)
           + (if f = hashf (bsb b) \<and> f \<notin> fst ` set (connections w) then 1 else 0)"
    and "fst ` set (connections w1) = insert (hashf (bsb b)) (fst ` set (connections w))"
    and "supportsGCCCPResult (heap w1 h) = supportsGCCCPResult (heap w h)"
    and "(case clusterClient w1 of None \<Rightarrow> True | Some cc \<Rightarrow> supportsGCCCPResult (heap w1 cc))"
proof -
  let ?s = "(sb w)\<lparr>BucketName := name\<rparr>"
  let ?k = "hashf ?s"
  have all: "wellFormed w1 \<and> sb w1 = sb w \<and> nextHandle w \<le> nextHandle w1
    \<and> (h < nextHandle w \<longrightarrow> heap w1 h = heap w h)
    \<and> (map_of (connections w) k = Some h \<longrightarrow> map_of (connections w1) k = Some h)
    \<and> bsb b = ?s
    \<and> cachedClient b = map_of (connections w1) (hashf (bsb b))
    \<and> cachedClient b \<noteq> None
    \<and> factoryCalls hashf f (trace w1) =
           factoryCalls hashf f (trace w)
           + (if f = hashf (bsb b) \<and> f \<notin> fst ` set (connections w) then 1 else 0)
    \<and> fst ` set (connections w1) = insert (hashf (bsb b)) (fst ` set (connections w))
    \<and> supportsGCCCPResult (heap w1 h) = supportsGCCCPResult (heap w h)
    \<and> (case clusterClient w1 of None \<Rightarrow> True | Some cc \<Rightarrow> supportsGCCCPResult (heap w1 cc))"
  proof (cases "map_of (connections w) ?k")
    case (Some cli)
    then have g: "getClient hashf ?s (retireClusterClient w) = Some cli"
      by (simp add: getClient_def retire_fields)
    from Some have kin: "?k \<in> fst ` set (connections w)"
      using map_of_absent [of "connections w" ?k] by auto
    from B have b: "b = \<lparr> bsb = ?s, cachedClient = Some cli \<rparr>" and w1: "w1 = retireClusterClient w"
      unfolding Bucket_hit [OF g] by simp_all
    show ?thesis
      unfolding b w1 using wf Some kin
      by (simp add: wellFormed_def retire_fields factoryCalls_append
            factoryCalls_retireEvents insert_absorb split: option.splits)
  next
    case None
    then have g: "getClient hashf ?s (retireClusterClient w) = None"
      by (simp add: getClient_def retire_fields)
    from None have nk: "?k \<notin> fst ` set (connections w)"
      by (simp add: map_of_absent)
    let ?c = "AList.update ?k (nextHandle w) (connections w)"
    have lt: "nextHandle w \<notin> snd ` set (connections w)"
      using wf by (auto simp: wellFormed_def list_all_iff)
    have la: "list_all (\<lambda>kc. snd kc < Suc (nextHandle w)) (connections w)"
      using wf by (auto simp: wellFormed_def list_all_iff)
    have c0: "?c = connections w @ [(?k, nextHandle w)]"
      using nk by (rule update_absent)
    have c1: "map_of ?c = (map_of (connections w))(?k \<mapsto> nextHandle w)"
      by (rule AList.update_conv')
    have c2: "distinct (map fst ?c)"
      using wf by (simp add: wellFormed_def AList.distinct_update)
    have c3: "distinct (map snd ?c)"
      unfolding c0 using wf lt by (simp add: wellFormed_def)
    have c4: "list_all (\<lambda>kc. snd kc < Suc (nextHandle w)) ?c"
      unfolding c0 using la by simp
    have c5: "fst ` set ?c = insert ?k (fst ` set (connections w))"
      by (simp add: AList.dom_update)
    from B have b: "b = \<lparr> bsb = ?s, cachedClient = Some (nextHandle w) \<rparr>"
      and w1: "w1 = (retireClusterClient w)
       \<lparr>heap := (heap w)(nextHandle w :=
           (heap w (nextHandle w))\<lparr>bootstrapErr := bootstrapOutcome (heap w (nextHandle w))\<rparr>),
        nextHandle := Suc (nextHandle w),
        trace := trace w @ retireEvents w @ createEvents w ?s,
        connections := ?c\<rparr>"
      unfolding Bucket_miss [OF g] by simp_all
    have k: "map_of (connections w) k = Some h \<Longrightarrow> k \<noteq> ?k"
      using None by auto
    show ?thesis
      unfolding b w1 using nk k c1 c2 c3 c4 c5
      by (auto simp: wellFormed_def retire_fields factoryCalls_append
            factoryCalls_retireEvents factoryCalls_createEvents split: option.splits)
  qed
  show "wellFormed w1" "sb w1 = sb w" "nextHandle w \<le> nextHandle w1"
    "bsb b = (sb w)\<lparr>BucketName := name\<rparr>"
    "cachedClient b = map_of (connections w1) (hashf (bsb b))"
    "cachedClient b \<noteq> None"
    "factoryCalls hashf f (trace w1) =
           factoryCalls hashf f (trace w)
           + (if f = hashf (bsb b) \<and> f \<notin> fst ` set (connections w) then 1 else 0)"
    "fst ` set (connections w1) = insert (hashf (bsb b)) (fst ` set (connections w))"
    "supportsGCCCPResult (heap w1 h) = supportsGCCCPResult (heap w h)"
    "(case clusterClient w1 of None \<Rightarrow> True | Some cc \<Rightarrow> supportsGCCCPResult (heap w1 cc))"
    using all by blast+
  show "h < nextHandle w \<Longrightarrow> heap w1 h = heap w h"
    "map_of (connections w) k = Some h \<Longrightarrow> map_of (connections w1) k = Some h"
    using all by blast+
qed


lemma Bucket_registryCounted:
  assumes "wellFormed w" and "Bucket hashf name w = (b, w1)" and "registryCounted hashf w"
  shows "registryCounted hashf w1"
  unfolding registryCounted_def
proof
  fix f
  show "factoryCalls hashf f (trace w1) = (if f \<in> fst ` set (connections w1) then 1 else 0)"
    using Bucket_effects(9) [OF assms(1,2), of f] Bucket_effects(10) [OF assms(1,2)] assms(3)
    by (auto simp: registryCounted_def)
qed

lemma acquireAll_effects:
  "wellFormed w \<Longrightarrow> acquireAll hashf names w = (bs, w') \<Longrightarrow>
     wellFormed w' \<and> sb w' = sb w \<and> nextHandle w \<le> nextHandle w'
     \<and> (\<forall>h < nextHandle w. heap w' h = heap w h)
     \<and> (\<forall>k h. map_of (connections w) k = Some h \<longrightarrow> map_of (connections w') k = Some h)
     \<and> (\<forall>k \<in> fst ` set (connections w).
           factoryCalls hashf k (trace w') = factoryCalls hashf k (trace w))
     \<and> (\<forall>b \<in> set bs. cachedClient b = map_of (connections w') (hashf (bsb b))
                        \<and> cachedClient b \<noteq> None)
     \<and> (\<forall>h. supportsGCCCPResult (heap w' h) = supportsGCCCPResult (heap w h))
     \<and> (registryCounted hashf w \<longrightarrow> registryCounted hashf w')"
proof (induction names arbitrary: w bs w')
  case Nil
  then show ?case by simp
next
  case (Cons n ns)
  obtain b w1 where B: "Bucket hashf n w = (b, w1)"
    by (cases "Bucket hashf n w")
  obtain bs1 w2 where A: "acquireAll hashf ns w1 = (bs1, w2)"
    by (cases "acquireAll hashf ns w1")
  from Cons.prems(2) B A have bs: "bs = b # bs1" and w': "w' = w2"
    by simp_all
  note E = Bucket_effects [OF Cons.prems(1) B]
  note I = Cons.IH [OF E(1) A]
  have 1: "wellFormed w2" "sb w2 = sb w" "nextHandle w \<le> nextHandle w2"
    using I E(2,3) by simp_all
  have 2: "\<forall>h < nextHandle w. heap w2 h = heap w h"
    using I E(3,4) by (metis less_le_trans)
  have 3: "\<forall>k h. map_of (connections w) k = Some h \<longrightarrow> map_of (connections w2) k = Some h"
    using I E(5) by blast
  have 4: "\<forall>k \<in> fst ` set (connections w).
           factoryCalls hashf k (trace w2) = factoryCalls hashf k (trace w)"
  proof
    fix k assume k: "k \<in> fst ` set (connections w)"
    then have "k \<in> fst ` set (connections w1)"
      using E(10) by simp
    then have "factoryCalls hashf k (trace w2) = factoryCalls hashf k (trace w1)"
      using I by blast
    also have "\<dots> = factoryCalls hashf k (trace w)"
      using E(9) [of k] k by simp
    finally show "factoryCalls hashf k (trace w2) = factoryCalls hashf k (trace w)" .
  qed
  have 5: "\<forall>b' \<in> set (b # bs1). cachedClient b' = map_of (connections w2) (hashf (bsb b'))
                        \<and> cachedClient b' \<noteq> None"
  proof -
    from E(7,8) obtain h where h: "map_of (connections w1) (hashf (bsb b)) = Some h"
      "cachedClient b = Some h"
      by (cases "cachedClient b") auto
    then have "map_of (connections w2) (hashf (bsb b)) = Some h"
      using I by blast
    then have "cachedClient b = map_of (connections w2) (hashf (bsb b)) \<and> cachedClient b \<noteq> None"
      using h by simp
    moreover have "\<forall>b' \<in> set bs1. cachedClient b' = map_of (connections w2) (hashf (bsb b'))
                        \<and> cachedClient b' \<noteq> None"
      using I by blast
    ultimately show ?thesis
      by (metis set_ConsD)
  qed
  have 6: "\<forall>h. supportsGCCCPResult (heap w2 h) = supportsGCCCPResult (heap w h)"
    using I E(11) by simp
  have 7: "registryCounted hashf w \<longrightarrow> registryCounted hashf w2"
    using I Bucket_registryCounted [OF Cons.prems(1) B] by blast
  show ?case
    unfolding bs w' using 1 2 3 4 5 6 7 by blast
qed



lemma registered_handle_allocated:
  assumes "wellFormed w" and "map_of (connections w) k = Some h"
  shows "h < nextHandle w"
  using assms by (auto simp: wellFormed_def list_all_iff dest: map_of_SomeD)

lemma Bucket_miss_bootstrap:
  assumes "Bucket hashf name w = (b, w1)"
    and "getClient hashf ((sb w)\<lparr>BucketName := name\<rparr>) w = None"
  shows "cachedClient b = Some (nextHandle w)"
    and "bootstrapErr (heap w1 (nextHandle w)) = bootstrapOutcome (heap w (nextHandle w))"
proof -
  have g: "getClient hashf ((sb w)\<lparr>BucketName := name\<rparr>) (retireClusterClient w) = None"
    using assms(2) by (simp add: getClient_def retire_fields)
  show "cachedClient b = Some (nextHandle w)"
    and "bootstrapErr (heap w1 (nextHandle w)) = bootstrapOutcome (heap w (nextHandle w))"
    using assms(1) unfolding Bucket_miss [OF g] by auto
qed

text \<open>
  Claim C5. \<^verbatim>\<open>Bucket\<close> always returns a bucket bound to a client, the one registered under
  the bucket's fingerprint. When the fingerprint was not registered, that client is new
  and its bootstrap error is the error of building its configuration or of connecting,
  if either failed. After any further acquisitions, acquiring a bucket with the same
  fingerprint again returns the same client with the same bootstrap error, and the
  factory is not invoked again for that fingerprint.
\<close>

theorem Bucket_caches_failed_client:
  assumes "wellFormed w" and "Bucket hashf name w = (b, w1)"
  shows "\<exists>cli. cachedClient b = Some cli
      \<and> getClient hashf (bsb b) w1 = Some cli
      \<and> (getClient hashf (bsb b) w = None \<longrightarrow>
           cli = nextHandle w
           \<and> bootstrapErr (heap w1 cli) = bootstrapOutcome (heap w cli))
      \<and> (acquireAll hashf names w1 = (bs, w2) \<and> Bucket hashf name' w2 = (b', w3)
           \<and> hashf ((sb w)\<lparr>BucketName := name'\<rparr>) = hashf (bsb b) \<longrightarrow>
           cachedClient b' = Some cli
           \<and> bootstrapErr (heap w3 cli) = bootstrapErr (heap w1 cli)
           \<and> factoryCalls hashf (hashf (bsb b)) (trace w3)
               = factoryCalls hashf (hashf (bsb b)) (trace w1))"
proof -
  note E = Bucket_effects [OF assms]
  let ?k = "hashf (bsb b)"
  from E(7,8) obtain cli where cli: "cachedClient b = Some cli"
    "map_of (connections w1) ?k = Some cli"
    by (cases "cachedClient b") auto
  have a: "getClient hashf (bsb b) w1 = Some cli"
    using cli by (simp add: getClient_def)
  have m: "cli = nextHandle w \<and> bootstrapErr (heap w1 cli) = bootstrapOutcome (heap w cli)"
    if "getClient hashf (bsb b) w = None"
    using Bucket_miss_bootstrap [OF assms(2)] that cli(1) E(6) by simp
  have s: "cachedClient b' = Some cli
           \<and> bootstrapErr (heap w3 cli) = bootstrapErr (heap w1 cli)
           \<and> factoryCalls hashf ?k (trace w3) = factoryCalls hashf ?k (trace w1)"
    if A: "acquireAll hashf names w1 = (bs, w2)" and B: "Bucket hashf name' w2 = (b', w3)"
      and H: "hashf ((sb w)\<lparr>BucketName := name'\<rparr>) = hashf (bsb b)"
  proof -
    note AE = acquireAll_effects [OF E(1) A]
    have wf2: "wellFormed w2" and sb2: "sb w2 = sb w"
      using AE E(2) by simp_all
    note E2 = Bucket_effects [OF wf2 B]
    have bb: "hashf (bsb b') = hashf (bsb b)"
      using E2(6) sb2 H by simp
    have k2: "map_of (connections w2) ?k = Some cli"
      using AE cli(2) by blast
    then have k3: "map_of (connections w3) ?k = Some cli"
      by (rule E2(5))
    have c: "cachedClient b' = Some cli"
      using E2(7) bb k3 by simp
    have lt: "cli < nextHandle w1"
      using registered_handle_allocated [OF E(1) cli(2)] .
    then have "heap w2 cli = heap w1 cli"
      using AE by blast
    moreover have "cli < nextHandle w2"
      using lt AE by linarith
    then have "heap w3 cli = heap w2 cli"
      by (rule E2(4))
    ultimately have h: "bootstrapErr (heap w3 cli) = bootstrapErr (heap w1 cli)"
      by simp
    have kin1: "?k \<in> fst ` set (connections w1)"
      using cli(2) map_of_absent [of "connections w1" ?k] by auto
    have kin2: "?k \<in> fst ` set (connections w2)"
      using k2 map_of_absent [of "connections w2" ?k] by auto
    have "factoryCalls hashf ?k (trace w3) = factoryCalls hashf ?k (trace w2)"
      using E2(9) [of ?k] kin2 by simp
    also have "\<dots> = factoryCalls hashf ?k (trace w1)"
      using AE kin1 by blast
    finally show ?thesis
      using c h by simp
  qed
  show ?thesis
    by (rule exI [of _ cli]) (use cli(1) a m s in auto)
qed




lemma connectedWorld_fields:
  "connections (connectedWorld env) = []"
  "nextHandle (connectedWorld env) = 1"
  "clusterClient (connectedWorld env) = Some 0"
  "heap (connectedWorld env) = env(0 := (env 0)\<lparr>bootstrapErr := None\<rparr>)"
  "sb (connectedWorld env) = sb (clusterFromOptions zeroOptions env)"
  "trace (connectedWorld env) = [EvTracerAddRef ThresholdLoggingTracer,
                  EvNewClient 0 ClusterLevel, EvBuildConfig 0, EvConnect 0]"
  by (simp_all add: connectedWorld_def initialCluster_def clusterFromOptions_connections)

lemma connectedWorld_wellFormed: "wellFormed (connectedWorld env)"
  by (simp add: wellFormed_def connectedWorld_fields)


lemma flakyEnv_values:
  "buildConfigResult (flakyEnv h) = None"
  "connectResult (flakyEnv 0) = None"
  "connectResult (flakyEnv (Suc 0)) = Some (ErrExternal ''authentication failure'')"
  by (simp_all add: flakyEnv_def goodClient_def)

lemma Close_empties_registry:
  "connections (snd (Close w)) = [] \<and> nextHandle (snd (Close w)) = nextHandle w"
proof -
  obtain e1 w1 where l: "Close_loop (connections w) None w = (e1, w1)"
    by (cases "Close_loop (connections w) None w")
  note L = Close_loop_effects [OF l]
  have c1: "connections w1 = []"
    using L delete_all_keys [of "connections w" "connections w"] by simp
  show ?thesis
    using L c1
    by (auto simp: Close_def l client_close_def emit_def logWarnf_def split: option.splits)
qed

text \<open>After \<^verbatim>\<open>Close\<close> the registry is empty, and acquiring a bucket makes a new client.\<close>

lemma Bucket_after_Close_makes_new_client:
  assumes "Bucket hashf name (snd (Close w)) = (b, w1)"
  shows "cachedClient b = Some (nextHandle w)"
proof -
  have g: "getClient hashf ((sb (snd (Close w)))\<lparr>BucketName := name\<rparr>) (snd (Close w)) = None"
    using Close_empties_registry [of w] by (simp add: getClient_def)
  show ?thesis
    using Bucket_miss_bootstrap(1) [OF assms g] Close_empties_registry [of w] by simp
qed

text \<open>
  The first client made for a bucket cannot connect: the bucket "sales" is bound to it
  and it carries the error; after the bucket "stock" has been acquired, "sales" is bound
  to the same client with the same error.
\<close>

theorem Bucket_caches_failed_client_witness:
  "cachedClient (fst (Bucket exampleFingerprint ''sales'' (connectedWorld flakyEnv))) = Some 1
   \<and> bootstrapErr
        (heap (snd (Bucket exampleFingerprint ''sales'' (connectedWorld flakyEnv))) 1)
       = Some (ErrExternal ''authentication failure'')
   \<and> cachedClient
        (fst (Bucket exampleFingerprint ''sales''
               (snd (acquireAll exampleFingerprint [''stock'']
                      (snd (Bucket exampleFingerprint ''sales'' (connectedWorld flakyEnv)))))))
       = Some 1
   \<and> bootstrapErr
        (heap (snd (Bucket exampleFingerprint ''sales''
                     (snd (acquireAll exampleFingerprint [''stock'']
                            (snd (Bucket exampleFingerprint ''sales''
                                   (connectedWorld flakyEnv))))))) 1)
       = Some (ErrExternal ''authentication failure'')"
proof -
  let ?W = "connectedWorld flakyEnv"
  let ?B1 = "Bucket exampleFingerprint ''sales'' ?W"
  let ?A = "acquireAll exampleFingerprint [''stock''] (snd ?B1)"
  let ?B3 = "Bucket exampleFingerprint ''sales'' (snd ?A)"
  have B1: "?B1 = (fst ?B1, snd ?B1)" by simp
  have A: "?A = (fst ?A, snd ?A)" by simp
  have B3: "?B3 = (fst ?B3, snd ?B3)" by simp
  have g: "getClient exampleFingerprint ((sb ?W)\<lparr>BucketName := ''sales''\<rparr>) ?W = None"
    by (simp add: getClient_def connectedWorld_fields)
  have b: "bsb (fst ?B1) = (sb ?W)\<lparr>BucketName := ''sales''\<rparr>"
    using Bucket_effects(6) [OF connectedWorld_wellFormed B1] .
  have c: "cachedClient (fst ?B1) = Some 1"
    using Bucket_miss_bootstrap(1) [OF B1 g] by (simp add: connectedWorld_fields)
  have o: "bootstrapOutcome (heap ?W 1) = Some (ErrExternal ''authentication failure'')"
    by (simp add: bootstrapOutcome_def connectedWorld_fields flakyEnv_values)
  have n: "nextHandle ?W = 1"
    by (simp add: connectedWorld_fields)
  show ?thesis
    using Bucket_caches_failed_client [OF connectedWorld_wellFormed B1,
      where names = "[''stock'']" and bs = "fst ?A" and ?w2.0 = "snd ?A"
        and name' = "''sales''" and b' = "fst ?B3" and ?w3.0 = "snd ?B3"] g c o
    unfolding b n by auto
qed






lemma Bucket_step_simps:
  "c_pc c = AtRetire \<Longrightarrow> Bucket_step hashf c w = (c\<lparr>c_pc := AtLookup\<rparr>, retireClusterClient w)"
  "c_pc c = AtLookup \<Longrightarrow> getClient hashf (bsb (c_b c)) w = Some cli \<Longrightarrow>
     Bucket_step hashf c w = (c\<lparr>c_pc := Returned, c_b := cacheClient cli (c_b c)\<rparr>, w)"
  "c_pc c = AtLookup \<Longrightarrow> getClient hashf (bsb (c_b c)) w = None \<Longrightarrow>
     Bucket_step hashf c w = (c\<lparr>c_pc := AtCreate\<rparr>, w)"
  "c_pc c = AtCreate \<Longrightarrow>
     Bucket_step hashf c w =
       (c\<lparr>c_pc := AtInsert, c_cli := Some (fst (createClient (bsb (c_b c)) w))\<rparr>,
        snd (createClient (bsb (c_b c)) w))"
  "c_pc c = AtInsert \<Longrightarrow> c_cli c = Some cli \<Longrightarrow>
     Bucket_step hashf c w =
       (c\<lparr>c_pc := Returned, c_b := cacheClient cli (c_b c)\<rparr>,
        registerClient (hashf (bsb (c_b c))) cli w)"
  "c_pc c = Returned \<Longrightarrow> Bucket_step hashf c w = (c, w)"
  by (simp_all add: Bucket_step_def split: prod.splits)

text \<open>One call alone, run through its four steps, is \<^verbatim>\<open>Bucket\<close>.\<close>

lemma runSchedule_alone:
  "map c_pc (fst (runSchedule hashf [0, 0, 0, 0] ([startCall (sb w) name], w))) = [Returned]
   \<and> map c_b (fst (runSchedule hashf [0, 0, 0, 0] ([startCall (sb w) name], w)))
       = [fst (Bucket hashf name w)]
   \<and> snd (runSchedule hashf [0, 0, 0, 0] ([startCall (sb w) name], w))
       = snd (Bucket hashf name w)"
proof (cases "getClient hashf ((sb w)\<lparr>BucketName := name\<rparr>) (retireClusterClient w)")
  case None
  then show ?thesis
    by (simp add: Bucket_step_simps startCall_def newBucket_def cacheClient_def Bucket_def
          Let_def split: prod.splits)
next
  case (Some cli)
  then show ?thesis
    by (simp add: Bucket_step_simps startCall_def newBucket_def cacheClient_def Bucket_def
          Let_def)
qed



end
